theory Spec2Isabelle
  imports Complex_Main "HOL-Library.AList"
begin

chapter \<open>The model\<close>

section \<open>JavaScript values\<close>

text \<open>
  The library works on untyped JSON: event bodies, card entries, usage records and
  cards are plain objects whose fields may be missing or of any type. A number is a
  finite value, NaN or an infinity; a string is a list of 8-bit code units (the Latin-1
  range of a JavaScript string); an object is its list of own properties in insertion
  order. Function values are not JSON and are no part of \<open>js\<close>.
\<close>

datatype js_number = Finite rat | NaN | Infinity bool

datatype js =
    JUndefined
  | JNull
  | JBool bool
  | JNum js_number
  | JStr string
  | JArr "js list"
  | JObj "(string \<times> js) list"

text \<open>
  What the code can throw: \<open>new Error(message)\<close>, the engine's TypeError (a property
  read on \<open>undefined\<close> or \<open>null\<close>, a call of something that is no function, a
  non-string handed to \<open>path.extname\<close>), the SyntaxError of \<open>JSON.parse\<close>, and
  a request the Box client rejects.
\<close>

datatype error = Error string | TypeError | SyntaxError | RequestFailed

definition bindE :: "error + 'a \<Rightarrow> ('a \<Rightarrow> error + 'b) \<Rightarrow> error + 'b" where
  "bindE m f = (case m of Inl e \<Rightarrow> Inl e | Inr x \<Rightarrow> f x)"

text \<open>ToBoolean.\<close>

fun truthy :: "js \<Rightarrow> bool" where
  "truthy JUndefined = False"
| "truthy JNull = False"
| "truthy (JBool b) = b"
| "truthy (JNum (Finite q)) = (q \<noteq> 0)"
| "truthy (JNum NaN) = False"
| "truthy (JNum (Infinity _)) = True"
| "truthy (JStr s) = (s \<noteq> [])"
| "truthy (JArr _) = True"
| "truthy (JObj _) = True"

text \<open>\<open>typeof v === 'string'\<close>, \<open>typeof v === 'object'\<close>, \<open>Array.isArray\<close>,
  \<open>Number.isInteger\<close>.\<close>

fun typeof_string :: "js \<Rightarrow> bool" where
  "typeof_string (JStr _) = True"
| "typeof_string _ = False"

fun typeof_object :: "js \<Rightarrow> bool" where
  "typeof_object JNull = True"
| "typeof_object (JArr _) = True"
| "typeof_object (JObj _) = True"
| "typeof_object _ = False"

fun Array_isArray :: "js \<Rightarrow> bool" where
  "Array_isArray (JArr _) = True"
| "Array_isArray _ = False"

fun Number_isInteger :: "js \<Rightarrow> bool" where
  "Number_isInteger (JNum (Finite q)) = (of_int \<lfloor>q\<rfloor> = q)"
| "Number_isInteger _ = False"

text \<open>
  A property read \<open>v.k\<close>, for the names this file reads: none of them is an index
  or a property of a prototype. It throws on \<open>undefined\<close> and \<open>null\<close>; an object
  gives its own property or \<open>undefined\<close>; a string and an array have a \<open>length\<close>;
  every other read gives \<open>undefined\<close>.
\<close>

fun get :: "js \<Rightarrow> string \<Rightarrow> error + js" where
  "get JUndefined k = Inl TypeError"
| "get JNull k = Inl TypeError"
| "get (JObj kv) k = Inr (case map_of kv k of None \<Rightarrow> JUndefined | Some v \<Rightarrow> v)"
| "get (JStr s) k = Inr (if k = ''length'' then JNum (Finite (of_nat (length s))) else JUndefined)"
| "get (JArr xs) k = Inr (if k = ''length'' then JNum (Finite (of_nat (length xs))) else JUndefined)"
| "get (JBool b) k = Inr JUndefined"
| "get (JNum n) k = Inr JUndefined"

text \<open>
  An assignment \<open>o.k = v\<close>: an existing property keeps its place, a new one is added
  last. On a primitive the assignment is dropped (the file is not in strict mode).
\<close>

fun put :: "js \<Rightarrow> string \<Rightarrow> js \<Rightarrow> js" where
  "put (JObj kv) k v = JObj (AList.update k v kv)"
| "put d k v = d"

subsection \<open>Strings\<close>

text \<open>The white space and line terminators that \<open>String.prototype.trim\<close> strips, among
  the 8-bit code units: TAB, LF, VT, FF, CR, space and NBSP.\<close>

definition is_space :: "char \<Rightarrow> bool" where
  "is_space c = (of_char c \<in> {9, 10, 11, 12, 13, 32, 160 :: nat})"

definition trim :: "string \<Rightarrow> string" where
  "trim s = rev (dropWhile is_space (rev (dropWhile is_space s)))"

text \<open>\<open>toLowerCase\<close> on 8-bit code units: A-Z and the Latin-1 capitals move up by 32.\<close>

definition lower_char :: "char \<Rightarrow> char" where
  "lower_char c =
     (let n = (of_char c :: nat)
      in if (65 \<le> n \<and> n \<le> 90) \<or> (192 \<le> n \<and> n \<le> 222 \<and> n \<noteq> 215)
         then char_of (n + 32) else c)"

definition toLowerCase :: "string \<Rightarrow> string" where
  "toLowerCase s = map lower_char s"

text \<open>lodash \<open>trimStart(s, chars)\<close>: drops the leading characters that are in \<open>chars\<close>.\<close>

definition trimStart :: "string \<Rightarrow> string \<Rightarrow> string" where
  "trimStart s chars = dropWhile (\<lambda>c. c \<in> set chars) s"

text \<open>\<open>s.replace(pat, by)\<close> with a string pattern replaces the first occurrence only.\<close>

fun replace :: "string \<Rightarrow> string \<Rightarrow> string \<Rightarrow> string" where
  "replace [] pat by = (if pat = [] then by else [])"
| "replace (c # cs) pat by =
     (if take (length pat) (c # cs) = pat then by @ drop (length pat) (c # cs)
      else c # replace cs pat by)"

section \<open>File type classification\<close>

definition BOX_API_ENDPOINT :: string where
  "BOX_API_ENDPOINT = ''https://api.box.com/2.0''"

text \<open>\<open>FileType\<close>, keyed by name: the representation each type is read in.\<close>

definition FileType :: "(string \<times> string) list" where
  "FileType =
     [(''AUDIO'', ''[mp3]''),
      (''VIDEO'', ''[mp4]''),
      (''IMAGE'', ''[jpg?dimensions=1024x1024]''),
      (''DOCUMENT'', ''[extracted_text]'')]"

definition boxVideoFormats :: "string list" where
  "boxVideoFormats =
     [''3g2'', ''3gp'', ''avi'', ''flv'', ''m2v'', ''m2ts'', ''m4v'', ''mkv'', ''mov'',
      ''mp4'', ''mpeg'', ''mpg'', ''ogg'', ''mts'', ''qt'', ''ts'', ''wmv'']"

definition boxAudioFormats :: "string list" where
  "boxAudioFormats =
     [''aac'', ''aif'', ''aifc'', ''aiff'', ''amr'', ''au'', ''flac'', ''m4a'', ''mp3'',
      ''ra'', ''wav'', ''wma'']"

definition boxImageFormats :: "string list" where
  "boxImageFormats =
     [''ai'', ''bmp'', ''gif'', ''eps'', ''heic'', ''jpeg'', ''jpg'', ''png'', ''ps'',
      ''psd'', ''svg'', ''tif'', ''tiff'', ''dcm'', ''dicm'', ''dicom'', ''svs'', ''tga'']"

text \<open>
  \<open>path.extname\<close> belongs to Node, not to this repository: it is a parameter of
  \<open>getFileFormat\<close>. It throws a TypeError on anything but a string.
\<close>

definition getFileFormat :: "(string \<Rightarrow> string) \<Rightarrow> js \<Rightarrow> error + string" where
  "getFileFormat extname fileName =
     (case fileName of
        JStr name \<Rightarrow> Inr (trimStart (toLowerCase (extname name)) ''.'')
      | _ \<Rightarrow> Inl TypeError)"

definition getFileType :: "string \<Rightarrow> string" where
  "getFileType fileFormat =
     (if fileFormat \<in> set boxAudioFormats then ''AUDIO''
      else if fileFormat \<in> set boxImageFormats then ''IMAGE''
      else if fileFormat \<in> set boxVideoFormats then ''VIDEO''
      else ''DOCUMENT'')"

text \<open>
  For the evaluations below, \<open>path.extname\<close> on POSIX as Node documents it: the part
  of the last path segment from its last dot on, empty when there is no dot, when the
  only dot opens the segment, or when the segment is \<open>..\<close>.
\<close>

definition basename :: "string \<Rightarrow> string" where
  "basename p =
     rev (takeWhile (\<lambda>c. c \<noteq> CHR ''/'') (dropWhile (\<lambda>c. c = CHR ''/'') (rev p)))"

definition extname_posix :: "string \<Rightarrow> string" where
  "extname_posix p =
     (let b = basename p;
          ext = rev (takeWhile (\<lambda>c. c \<noteq> CHR ''.'') (rev b))
      in if CHR ''.'' \<notin> set b \<or> b = ''..'' \<or> length ext + 1 = length b then []
         else CHR ''.'' # ext)"

section \<open>The platform\<close>

text \<open>
  What the file takes from Node and from its libraries, as parameters of the model:
  \<open>JSON.parse\<close> (\<open>None\<close> is its SyntaxError), \<open>path.extname\<close>, the text of a
  number, the clock behind \<open>new Date().toISOString()\<close>, \<open>parseFloat\<close> on the
  string its argument is converted to, the Box SDK's \<open>urlPath\<close>, and
  \<open>urlTemplate.parse(t).expand({asset_path: ''})\<close>. \<open>urlPath\<close> may throw: it
  converts its parts to strings and refuses a part that could leave the path.
  Console output is not modelled.
\<close>

record runtime =
  JSON_parse :: "string \<Rightarrow> js option"
  path_extname :: "string \<Rightarrow> string"
  Number_toString :: "js_number \<Rightarrow> string"
  Date_toISOString :: string
  parseFloat :: "string \<Rightarrow> js_number"
  urlPath :: "js list \<Rightarrow> error + string"
  expand_asset_path :: "string \<Rightarrow> string"

text \<open>
  ToString, as a template literal applies it. An array joins its elements with commas,
  \<open>undefined\<close> and \<open>null\<close> elements as the empty string; a plain object is
  \<open>[object Object]\<close>, unless it has an own property \<open>toString\<close>, which in JSON is
  never a function: then the conversion throws.
\<close>

fun ToString :: "(js_number \<Rightarrow> string) \<Rightarrow> js \<Rightarrow> error + string"
  and join :: "(js_number \<Rightarrow> string) \<Rightarrow> js list \<Rightarrow> error + string"
  and element :: "(js_number \<Rightarrow> string) \<Rightarrow> js \<Rightarrow> error + string"
where
  "ToString ns JUndefined = Inr ''undefined''"
| "ToString ns JNull = Inr ''null''"
| "ToString ns (JBool b) = Inr (if b then ''true'' else ''false'')"
| "ToString ns (JNum n) = Inr (ns n)"
| "ToString ns (JStr s) = Inr s"
| "ToString ns (JArr xs) = join ns xs"
| "ToString ns (JObj kv) =
     (if map_of kv ''toString'' = None then Inr ''[object Object]'' else Inl TypeError)"
| "join ns [] = Inr []"
| "join ns [x] = element ns x"
| "join ns (x # y # ys) =
     (case element ns x of
        Inl e \<Rightarrow> Inl e
      | Inr s \<Rightarrow> (case join ns (y # ys) of Inl e \<Rightarrow> Inl e | Inr t \<Rightarrow> Inr (s @ '','' @ t)))"
| "element ns JUndefined = Inr []"
| "element ns JNull = Inr []"
| "element ns (JBool b) = ToString ns (JBool b)"
| "element ns (JNum n) = ToString ns (JNum n)"
| "element ns (JStr s) = ToString ns (JStr s)"
| "element ns (JArr xs) = ToString ns (JArr xs)"
| "element ns (JObj kv) = ToString ns (JObj kv)"

text \<open>The method calls \<open>v.toString()\<close>, \<open>v.trim()\<close> and \<open>v.toLowerCase()\<close>: the last
  two exist on strings only.\<close>

fun call_toString :: "(js_number \<Rightarrow> string) \<Rightarrow> js \<Rightarrow> error + string" where
  "call_toString ns JUndefined = Inl TypeError"
| "call_toString ns JNull = Inl TypeError"
| "call_toString ns v = ToString ns v"

fun call_trim :: "js \<Rightarrow> error + js" where
  "call_trim (JStr s) = Inr (JStr (trim s))"
| "call_trim _ = Inl TypeError"

fun call_toLowerCase :: "js \<Rightarrow> error + string" where
  "call_toLowerCase (JStr s) = Inr (toLowerCase s)"
| "call_toLowerCase _ = Inl TypeError"

section \<open>FilesReader\<close>

text \<open>\<open>BoxSDK.getBasicClient(token)\<close>: a client is the token it holds; building one
  checks nothing.\<close>

datatype box_client = BasicClient js

record file_context =
  requestId :: js
  skillId :: string
  fileId :: js
  fileName :: js
  fileSize :: js
  fileFormat :: string
  fileType :: string
  fileDownloadURL :: string
  fileReadToken :: js
  fileWriteToken :: js

record files_reader = file_context +
  fileReadClient :: box_client

definition parse_body :: "runtime \<Rightarrow> js \<Rightarrow> error + js" where
  "parse_body rt body =
     (if typeof_object body then Inr body
      else bindE (ToString (Number_toString rt) body) (\<lambda>s.
           case JSON_parse rt s of None \<Rightarrow> Inl SyntaxError | Some v \<Rightarrow> Inr v))"

definition FilesReader :: "runtime \<Rightarrow> js \<Rightarrow> error + files_reader" where
  "FilesReader rt body =
     bindE (parse_body rt body) (\<lambda>eventBody.
     bindE (get eventBody ''id'') (\<lambda>request_id.
     bindE (get eventBody ''skill'') (\<lambda>skill.
     bindE (get skill ''id'') (\<lambda>skill_id.
     bindE (call_toString (Number_toString rt) skill_id) (\<lambda>skill_id_text.
     bindE (get eventBody ''source'') (\<lambda>source.
     bindE (get source ''id'') (\<lambda>file_id.
     bindE (get source ''name'') (\<lambda>file_name.
     bindE (get source ''size'') (\<lambda>file_size.
     bindE (getFileFormat (path_extname rt) file_name) (\<lambda>file_format.
     bindE (get eventBody ''token'') (\<lambda>token.
     bindE (get token ''read'') (\<lambda>token_read.
     bindE (get token_read ''access_token'') (\<lambda>read_token.
     bindE (get token ''write'') (\<lambda>token_write.
     bindE (get token_write ''access_token'') (\<lambda>write_token.
     bindE (ToString (Number_toString rt) file_id) (\<lambda>file_id_text.
     bindE (ToString (Number_toString rt) read_token) (\<lambda>read_token_text.
       Inr \<lparr> requestId = request_id,
             skillId = skill_id_text,
             fileId = file_id,
             fileName = file_name,
             fileSize = file_size,
             fileFormat = file_format,
             fileType = getFileType file_format,
             fileDownloadURL =
               BOX_API_ENDPOINT @ ''/files/'' @ file_id_text @ ''/content?access_token=''
                 @ read_token_text,
             fileReadToken = read_token,
             fileWriteToken = write_token,
             fileReadClient = BasicClient read_token \<rparr>)))))))))))))))))"

definition getFileContext :: "files_reader \<Rightarrow> file_context" where
  "getFileContext this =
     \<lparr> requestId = requestId this,
       skillId = skillId this,
       fileId = fileId this,
       fileName = fileName this,
       fileSize = fileSize this,
       fileFormat = fileFormat this,
       fileType = fileType this,
       fileDownloadURL = fileDownloadURL this,
       fileReadToken = fileReadToken this,
       fileWriteToken = fileWriteToken this \<rparr>"

section \<open>SkillsWriter\<close>

definition BASE_PATH :: string where
  "BASE_PATH = ''/skill_invocations''"

definition SKILLS_SERVICE_TYPE :: string where
  "SKILLS_SERVICE_TYPE = ''service''"

definition SKILLS_METADATA_CARD_TYPE :: string where
  "SKILLS_METADATA_CARD_TYPE = ''skill_card''"

definition SKILLS_METADATA_INVOCATION_TYPE :: string where
  "SKILLS_METADATA_INVOCATION_TYPE = ''skill_invocation''"

text \<open>The enumerations: objects from a name to a string.\<close>

definition SkillsErrorEnum :: "(string \<times> string) list" where
  "SkillsErrorEnum =
     [(''FILE_PROCESSING_ERROR'', ''skills_file_processing_error''),
      (''INVALID_FILE_SIZE'', ''skills_invalid_file_size_error''),
      (''INVALID_FILE_FORMAT'', ''skills_invalid_file_format_error''),
      (''INVALID_EVENT'', ''skills_invalid_event_error''),
      (''NO_INFO_FOUND'', ''skills_no_info_found''),
      (''INVOCATIONS_ERROR'', ''skills_invocations_error''),
      (''EXTERNAL_AUTH_ERROR'', ''skills_external_auth_error''),
      (''BILLING_ERROR'', ''skills_billing_error''),
      (''UNKNOWN'', ''skills_unknown_error'')]"

definition cardType :: "(string \<times> string) list" where
  "cardType =
     [(''TRANSCRIPT'', ''transcript''),
      (''TOPIC'', ''keyword''),
      (''FACES'', ''timeline''),
      (''STATUS'', ''status''),
      (''ERROR'', ''error'')]"

definition cardTitle :: "(string \<times> string) list" where
  "cardTitle =
     [(''TRANSCRIPT'', ''Transcript''),
      (''TOPIC'', ''Topics''),
      (''FACES'', ''Faces''),
      (''STATUS'', ''Status''),
      (''ERROR'', ''Error'')]"

definition usageUnit :: "(string \<times> string) list" where
  "usageUnit =
     [(''FILES'', ''files''),
      (''SECONDS'', ''seconds''),
      (''PAGES'', ''pages''),
      (''WORDS'', ''words'')]"

definition skillInvocationStatus :: "(string \<times> string) list" where
  "skillInvocationStatus =
     [(''INVOKED'', ''invoked''),
      (''PROCESSING'', ''processing''),
      (''PENDING'', ''skills_pending_status''),
      (''TRANSIENT_FAILURE'', ''transient_failure''),
      (''PERMANENT_FAILURE'', ''permanent_failure''),
      (''SUCCESS'', ''success'')]"

text \<open>\<open>E.NAME\<close> for a name the enumeration has.\<close>

definition member_of :: "(string \<times> string) list \<Rightarrow> string \<Rightarrow> string" where
  "member_of enum name = (case map_of enum name of Some s \<Rightarrow> s | None \<Rightarrow> [])"

definition Object_values :: "(string \<times> string) list \<Rightarrow> js list" where
  "Object_values enum = map (\<lambda>p. JStr (snd p)) enum"

definition validateEnum :: "js \<Rightarrow> (string \<times> string) list \<Rightarrow> bool" where
  "validateEnum inputValue enumName = (inputValue \<in> set (Object_values enumName))"

text \<open>
  \<open>usage && validateEnum(usage.unit, usageUnit) && Number.isInteger(usage.value)\<close>,
  read as a condition. A truthy value is neither \<open>undefined\<close> nor \<open>null\<close>, so the
  two property reads cannot throw.
\<close>

definition validateUsage :: "js \<Rightarrow> bool" where
  "validateUsage usage =
     (truthy usage
      \<and> (case get usage ''unit'' of Inr u \<Rightarrow> validateEnum u usageUnit | Inl e \<Rightarrow> False)
      \<and> (case get usage ''value'' of Inr v \<Rightarrow> Number_isInteger v | Inl e \<Rightarrow> False))"

subsection \<open>processDataList\<close>

text \<open>\<open>Array.prototype.filter\<close> and \<open>map\<close> with a callback that may throw: the first
  exception ends the traversal.\<close>

fun filterE :: "('a \<Rightarrow> error + bool) \<Rightarrow> 'a list \<Rightarrow> error + 'a list" where
  "filterE p [] = Inr []"
| "filterE p (x # xs) =
     (case p x of
        Inl e \<Rightarrow> Inl e
      | Inr b \<Rightarrow> (case filterE p xs of
                    Inl e \<Rightarrow> Inl e
                  | Inr ys \<Rightarrow> Inr (if b then x # ys else ys)))"

fun mapE :: "('a \<Rightarrow> error + 'b) \<Rightarrow> 'a list \<Rightarrow> error + 'b list" where
  "mapE f [] = Inr []"
| "mapE f (x # xs) =
     (case f x of
        Inl e \<Rightarrow> Inl e
      | Inr y \<Rightarrow> (case mapE f xs of Inl e \<Rightarrow> Inl e | Inr ys \<Rightarrow> Inr (y # ys)))"

text \<open>The filter's callback, \<open>data.text && data.text.trim()\<close>, read as a condition.\<close>

definition has_text :: "js \<Rightarrow> error + bool" where
  "has_text data =
     bindE (get data ''text'') (\<lambda>text.
       if \<not> truthy text then Inr False
       else bindE (call_trim text) (\<lambda>trimmed. Inr (truthy trimmed)))"

text \<open>
  The map's callback. With a duration, the test for a missing \<open>appears\<close> reads
  \<open>data.appears.length\<close> when \<open>data.appears\<close> is no array, and throws when it is
  absent; the warning itself is console output. \<open>cloneDeep\<close> copies a value, and values
  are not shared here.
\<close>

definition check_appears :: "js \<Rightarrow> js \<Rightarrow> error + unit" where
  "check_appears duration data =
     (if truthy duration then
        bindE (get data ''appears'') (\<lambda>appears.
          if Array_isArray appears then Inr ()
          else bindE (get appears ''length'') (\<lambda>n. Inr ()))
      else Inr ())"

definition normalise :: "js \<Rightarrow> js \<Rightarrow> error + js" where
  "normalise duration data =
     bindE (check_appears duration data) (\<lambda>u.
     bindE (get data ''image_url'') (\<lambda>image_url.
     bindE (get data ''text'') (\<lambda>text.
     bindE (call_trim text) (\<lambda>trimmed.
       Inr (put (put data ''type'' (JStr (if typeof_string image_url then ''image'' else ''text'')))
              ''text'' trimmed)))))"

definition processDataList :: "js list \<Rightarrow> js \<Rightarrow> error + js list" where
  "processDataList dataList duration =
     bindE (filterE has_text dataList) (\<lambda>kept. mapE (normalise duration) kept)"

subsection \<open>putData\<close>

text \<open>A callback is a function value, handed to the SDK untouched.\<close>

typedecl callback

record skills_writer =
  writer_requestId :: js
  writer_skillId :: js
  writer_fileId :: js
  fileWriteClient :: box_client

definition SkillsWriter :: "file_context \<Rightarrow> skills_writer" where
  "SkillsWriter fileContext =
     \<lparr> writer_requestId = requestId fileContext,
       writer_skillId = JStr (skillId fileContext),
       writer_fileId = fileId fileContext,
       fileWriteClient = BasicClient (fileWriteToken fileContext) \<rparr>"

text \<open>
  The PUT that \<open>putData\<close> hands to the client: the effect of a save is this request.
  When \<open>urlPath\<close> throws, nothing is handed to the client.
\<close>

record put_request =
  request_client :: box_client
  apiPath :: string
  request_body :: js
  request_headers :: "(string \<times> string) list"
  request_callback :: "callback option"

definition putData ::
  "runtime \<Rightarrow> box_client \<Rightarrow> js \<Rightarrow> js \<Rightarrow> callback option \<Rightarrow> error + put_request" where
  "putData rt client skill_id body cb =
     bindE (urlPath rt [JStr BASE_PATH, skill_id]) (\<lambda>path.
       Inr \<lparr> request_client = client,
             apiPath = path,
             request_body = body,
             request_headers =
               [(''Cache-Control'', ''no-cache''), (''Content-Type'', ''application/json'')],
             request_callback = cb \<rparr>)"

subsection \<open>Cards\<close>

text \<open>\<open>parseFloat(duration)\<close> converts its argument to a string first, and that
  conversion may throw.\<close>

definition createMetadataCard ::
  "runtime \<Rightarrow> skills_writer \<Rightarrow> js \<Rightarrow> js \<Rightarrow> js \<Rightarrow> js \<Rightarrow> js \<Rightarrow> error + js" where
  "createMetadataCard rt this type title optionalStatus optionalEntries optionalfileDuration =
     bindE (call_toLowerCase title) (\<lambda>lowered.
       let titleCode = replace (''skills_'' @ lowered) '' '' ''_'';
           template = JObj
             [(''created_at'', JStr (Date_toISOString rt)),
              (''type'', JStr SKILLS_METADATA_CARD_TYPE),
              (''skill'', JObj [(''type'', JStr SKILLS_SERVICE_TYPE), (''id'', writer_skillId this)]),
              (''skill_card_type'', type),
              (''skill_card_title'', JObj [(''code'', JStr titleCode), (''message'', title)]),
              (''invocation'',
                 JObj [(''type'', JStr SKILLS_METADATA_INVOCATION_TYPE),
                       (''id'', writer_requestId this)]),
              (''status'', if optionalStatus = JUndefined then JObj [] else optionalStatus)];
           template1 =
             (if truthy optionalEntries then put template ''entries'' optionalEntries
              else template)
       in if truthy optionalfileDuration
          then bindE (ToString (Number_toString rt) optionalfileDuration) (\<lambda>text.
                 Inr (put template1 ''duration'' (JNum (parseFloat rt text))))
          else Inr template1)"

definition title_or :: "js \<Rightarrow> string \<Rightarrow> js" where
  "title_or optionalCardTitle default_title =
     (if truthy optionalCardTitle then optionalCardTitle else JStr default_title)"

definition createTopicsCard :: "runtime \<Rightarrow> skills_writer \<Rightarrow> js list \<Rightarrow> js \<Rightarrow> js \<Rightarrow> error + js" where
  "createTopicsCard rt this topicsDataList optionalFileDuration optionalCardTitle =
     bindE (processDataList topicsDataList JUndefined) (\<lambda>entries.
       createMetadataCard rt this (JStr (member_of cardType ''TOPIC''))
         (title_or optionalCardTitle (member_of cardTitle ''TOPIC''))
         JUndefined (JArr entries) optionalFileDuration)"

definition createTranscriptsCard ::
  "runtime \<Rightarrow> skills_writer \<Rightarrow> js list \<Rightarrow> js \<Rightarrow> js \<Rightarrow> error + js" where
  "createTranscriptsCard rt this transcriptsDataList optionalFileDuration optionalCardTitle =
     bindE (processDataList transcriptsDataList JUndefined) (\<lambda>entries.
       createMetadataCard rt this (JStr (member_of cardType ''TRANSCRIPT''))
         (title_or optionalCardTitle (member_of cardTitle ''TRANSCRIPT''))
         JUndefined (JArr entries) optionalFileDuration)"

subsection \<open>createFacesCard\<close>

text \<open>\<open>Object.entries\<close> of an array: one pair \<open>[key, value]\<close> per element, the key
  being the index in decimal.\<close>

fun decimal :: "nat \<Rightarrow> string" where
  "decimal n =
     (if n < 10 then [char_of (48 + n)]
      else decimal (n div 10) @ [char_of (48 + n mod 10)])"

declare decimal.simps [simp del]

definition Object_entries :: "js list \<Rightarrow> js list" where
  "Object_entries xs = map (\<lambda>(i, x). JArr [JStr (decimal i), x]) (enumerate 0 xs)"

text \<open>
  jimp is a parameter: \<open>thumbnail i v\<close> is what the \<open>i\<close>-th chain
  \<open>jimp.read(v).then((image) => image.resize(45, 45).getBase64Async(jimp.MIME_PNG))\<close>
  settles to, the data URI or \<open>None\<close> when any step of it fails. The \<open>catch\<close> turns
  a failure into \<open>undefined\<close>.
\<close>

definition dataURIPromise :: "(nat \<Rightarrow> js \<Rightarrow> string option) \<Rightarrow> nat \<times> js \<Rightarrow> error + js" where
  "dataURIPromise thumbnail p =
     bindE (get (snd p) ''image_url'') (\<lambda>image_url.
       Inr (case thumbnail (fst p) image_url of None \<Rightarrow> JUndefined | Some uri \<Rightarrow> JStr uri))"

text \<open>One round of the last loop:
  \<open>processed[i].image_url = dataURIs[i] || processed[i].image_url\<close>.\<close>

definition assign_back :: "js \<times> js \<Rightarrow> error + js" where
  "assign_back p =
     (if truthy (snd p) then Inr (put (fst p) ''image_url'' (snd p))
      else bindE (get (fst p) ''image_url'') (\<lambda>image_url.
             Inr (put (fst p) ''image_url'' image_url)))"

text \<open>
  The card holds the very array \<open>facesDataListProcessed\<close> as its \<open>entries\<close>, so the
  loop's assignments show in the card that is returned: the model writes the updated
  array back into the card.
\<close>

definition createFacesCard ::
  "runtime \<Rightarrow> (nat \<Rightarrow> js \<Rightarrow> string option) \<Rightarrow> skills_writer \<Rightarrow> js list \<Rightarrow> js \<Rightarrow> js
     \<Rightarrow> error + js" where
  "createFacesCard rt thumbnail this facesDataList optionalFileDuration optionalCardTitle =
     bindE (processDataList facesDataList JUndefined) (\<lambda>facesDataListProcessed.
     bindE (createMetadataCard rt this (JStr (member_of cardType ''FACES''))
              (title_or optionalCardTitle (member_of cardTitle ''FACES''))
              JUndefined (JArr facesDataListProcessed) optionalFileDuration) (\<lambda>cards.
     bindE (mapE (dataURIPromise thumbnail)
              (enumerate 0 (Object_entries facesDataListProcessed))) (\<lambda>dataURIs.
     bindE (mapE assign_back (zip facesDataListProcessed dataURIs)) (\<lambda>updated.
       Inr (put cards ''entries'' (JArr updated))))))"

subsection \<open>Saving\<close>

definition DEFAULT_USAGE :: js where
  "DEFAULT_USAGE =
     JObj [(''unit'', JStr (member_of usageUnit ''FILES'')), (''value'', JNum (Finite 1))]"

definition saveDataCards ::
  "runtime \<Rightarrow> skills_writer \<Rightarrow> js list \<Rightarrow> callback option \<Rightarrow> js \<Rightarrow> js
     \<Rightarrow> error + put_request" where
  "saveDataCards rt this listofDataCardJSONs optionalCallback optionalStatus optionalUsage =
     (let status =
            (if validateEnum optionalStatus skillInvocationStatus then optionalStatus
             else JStr (member_of skillInvocationStatus ''SUCCESS''));
          usage =
            (if status = JStr (member_of skillInvocationStatus ''SUCCESS'')
             then (if validateUsage optionalUsage then optionalUsage else DEFAULT_USAGE)
             else JNull);
          body = JObj
            [(''status'', status),
             (''file'', JObj [(''type'', JStr ''file''), (''id'', writer_fileId this)]),
             (''metadata'', JObj [(''cards'', JArr listofDataCardJSONs)]),
             (''usage'', usage)]
      in putData rt (fileWriteClient this) (writer_skillId this) body optionalCallback)"

definition saveProcessingCard :: "runtime \<Rightarrow> skills_writer \<Rightarrow> callback option \<Rightarrow> error + put_request" where
  "saveProcessingCard rt this optionalCallback =
     (let status = JObj
            [(''code'', JStr (member_of skillInvocationStatus ''PENDING'')),
             (''message'',
                JStr (''We'' @ [CHR 0x27] @ ''re preparing to process your file. Please hold on!''))]
      in bindE (createMetadataCard rt this (JStr (member_of cardType ''STATUS''))
                  (JStr (member_of cardTitle ''STATUS'')) status JUndefined JUndefined)
           (\<lambda>statusCard.
              saveDataCards rt this [statusCard] optionalCallback
                (JStr (member_of skillInvocationStatus ''PROCESSING'')) JUndefined))"

definition saveErrorCard ::
  "runtime \<Rightarrow> skills_writer \<Rightarrow> js \<Rightarrow> js \<Rightarrow> callback option \<Rightarrow> js \<Rightarrow> error + put_request" where
  "saveErrorCard rt this err optionalCustomErrorMessage optionalCallback optionalFailureType =
     (let failureType =
            (if optionalFailureType = JStr (member_of skillInvocationStatus ''TRANSIENT_FAILURE'')
             then optionalFailureType
             else JStr (member_of skillInvocationStatus ''PERMANENT_FAILURE''));
          errorCode =
            (if validateEnum err SkillsErrorEnum then err
             else JStr (member_of SkillsErrorEnum ''UNKNOWN''));
          errorObj =
            (if truthy optionalCustomErrorMessage
             then JObj [(''code'', JStr ''custom_error''), (''message'', optionalCustomErrorMessage)]
             else JObj [(''code'', errorCode)])
      in bindE (createMetadataCard rt this (JStr (member_of cardType ''STATUS''))
                  (JStr (member_of cardTitle ''ERROR'')) errorObj JUndefined JUndefined)
           (\<lambda>errorCard.
              saveDataCards rt this [errorCard] optionalCallback failureType JUndefined))"

section \<open>Representation polling\<close>

text \<open>
  A representation as the Box API answers it: \<open>status.state\<close>,
  \<open>content.url_template\<close> and \<open>info.url\<close>. A response of \<open>client.get\<close> is a status
  code and such a body; a request may also be rejected.
\<close>

record representation =
  status_state :: string
  content_url_template :: string
  info_url :: string

record response =
  statusCode :: int
  response_body :: representation

type_synonym box_get = "string \<Rightarrow> nat \<Rightarrow> error + response"

text \<open>What a run of the poller did: the requests it sent and the time it waited.\<close>

record poll_trace =
  requests :: nat
  waited_ms :: nat

definition no_trace :: poll_trace where
  "no_trace = \<lparr> requests = 0, waited_ms = 0 \<rparr>"

text \<open>
  \<open>Promise.delay\<close> is a method of the Bluebird library. The built-in \<open>Promise\<close> of the
  language has none: there \<open>Promise.delay(1000)\<close> is a call of \<open>undefined\<close> and
  throws a TypeError, inside the \<open>then\<close> callback, so the poller's promise is rejected
  with it. The file requires box-node-sdk, stream, url-path, url-template, path, jimp and
  two lodash functions, and binds no \<open>Promise\<close>: the identifier is the built-in one.
  The binding is a parameter of the model, to show both behaviours.
\<close>

datatype promise_library = Builtin | Bluebird

definition Promise_in_scope :: promise_library where
  "Promise_in_scope = Builtin"

definition Promise_delay :: "promise_library \<Rightarrow> nat \<Rightarrow> poll_trace \<Rightarrow> error + poll_trace" where
  "Promise_delay P ms t =
     (case P of
        Builtin \<Rightarrow> Inl TypeError
      | Bluebird \<Rightarrow> Inr (t\<lparr>waited_ms := waited_ms t + ms\<rparr>))"

definition FILE_PROCESSING_ERROR :: error where
  "FILE_PROCESSING_ERROR = Error (member_of SkillsErrorEnum ''FILE_PROCESSING_ERROR'')"

text \<open>
  The poller has no bound on its retries, so it need not return: \<open>None\<close> is a run that
  polls forever. \<open>client url i\<close> is the answer to the \<open>i\<close>-th request.
\<close>

partial_function (option) pollRepresentationInfo ::
  "promise_library \<Rightarrow> box_get \<Rightarrow> string \<Rightarrow> poll_trace
     \<Rightarrow> ((error + representation) \<times> poll_trace) option"
where
  "pollRepresentationInfo P client infoURL t =
     (case client infoURL (requests t) of
        Inl e \<Rightarrow> Some (Inl e, t\<lparr>requests := Suc (requests t)\<rparr>)
      | Inr response \<Rightarrow>
          (if status_state (response_body response) \<in> {''success'', ''viewable'', ''error''}
           then Some (Inr (response_body response), t\<lparr>requests := Suc (requests t)\<rparr>)
           else if status_state (response_body response) \<in> {''none'', ''pending''}
           then (case Promise_delay P 1000 (t\<lparr>requests := Suc (requests t)\<rparr>) of
                   Inl e \<Rightarrow> Some (Inl e, t\<lparr>requests := Suc (requests t)\<rparr>)
                 | Inr t' \<Rightarrow> pollRepresentationInfo P client infoURL t')
           else Some (Inl FILE_PROCESSING_ERROR, t\<lparr>requests := Suc (requests t)\<rparr>)))"

text \<open>
  The first \<open>then\<close> of \<open>getBasicFormatFileURL\<close>: from the entries that
  \<open>getRepresentationInfo\<close> answered to the content URL template. \<open>entries.pop()\<close> is
  the last entry, \<open>undefined\<close> when there is none.
\<close>

definition assetURLTemplate ::
  "promise_library \<Rightarrow> box_get \<Rightarrow> representation list
     \<Rightarrow> ((error + string) \<times> poll_trace) option" where
  "assetURLTemplate P client entries =
     (if entries = [] then Some (Inl FILE_PROCESSING_ERROR, no_trace)
      else if status_state (last entries) \<in> {''success'', ''viewable''}
      then Some (Inr (content_url_template (last entries)), no_trace)
      else if status_state (last entries) = ''error''
      then Some (Inl FILE_PROCESSING_ERROR, no_trace)
      else if status_state (last entries) \<in> {''none'', ''pending''}
      then (case pollRepresentationInfo P client (info_url (last entries)) no_trace of
              None \<Rightarrow> None
            | Some (Inl e, t) \<Rightarrow> Some (Inl e, t)
            | Some (Inr info, t) \<Rightarrow>
                (if status_state info = ''error'' then Some (Inl FILE_PROCESSING_ERROR, t)
                 else Some (Inr (content_url_template info), t)))
      else Some (Inl FILE_PROCESSING_ERROR, no_trace))"

text \<open>
  \<open>getRepresentationInfo\<close> is the SDK's: a parameter, from the file id and the
  representation type to the entries, or a rejection. \<open>FileType[this.fileType]\<close> is
  \<open>undefined\<close> for a type that is no key of \<open>FileType\<close>.
\<close>

definition getBasicFormatFileURL ::
  "promise_library \<Rightarrow> runtime \<Rightarrow> (js \<Rightarrow> string \<Rightarrow> error + representation list) \<Rightarrow> box_get
     \<Rightarrow> files_reader \<Rightarrow> ((error + string) \<times> poll_trace) option" where
  "getBasicFormatFileURL P rt getRepresentationInfo client this =
     (case map_of FileType (fileType this) of
        None \<Rightarrow> Some (Inl TypeError, no_trace)
      | Some representationType \<Rightarrow>
          (case getRepresentationInfo (fileId this) representationType of
             Inl e \<Rightarrow> Some (Inl e, no_trace)
           | Inr entries \<Rightarrow>
               (case assetURLTemplate P client entries of
                  None \<Rightarrow> None
                | Some (Inl e, t) \<Rightarrow> Some (Inl e, t)
                | Some (Inr template, t) \<Rightarrow>
                    (case ToString (Number_toString rt) (fileReadToken this) of
                       Inl e \<Rightarrow> Some (Inl e, t)
                     | Inr token \<Rightarrow>
                         Some (Inr (expand_asset_path rt template @ ''?access_token='' @ token),
                               t)))))"

text \<open>A client that answers from a list, one response per request, and rejects every
  request after the last.\<close>

definition answers :: "response list \<Rightarrow> box_get" where
  "answers rs url i = (if i < length rs then Inr (rs ! i) else Inl RequestFailed)"

definition answer :: "string \<Rightarrow> string \<Rightarrow> response" where
  "answer state template =
     \<lparr> statusCode = 200,
       response_body =
         \<lparr> status_state = state, content_url_template = template, info_url = ''info'' \<rparr> \<rparr>"

section \<open>A platform for the evaluations\<close>

text \<open>
  Stand-ins for the parameters, used where a statement is evaluated on a concrete input:
  a \<open>JSON.parse\<close> that knows the three literals only, the text of an integer, a
  \<open>parseFloat\<close> that reads a string of decimal digits, a \<open>urlPath\<close> that joins
  the texts of its parts with slashes and refuses a part that holds \<open>/.\<close>, and an
  expansion that cuts the template at its first brace.
\<close>

definition parse_literal :: "string \<Rightarrow> js option" where
  "parse_literal s =
     (if s = ''null'' then Some JNull
      else if s = ''true'' then Some (JBool True)
      else if s = ''false'' then Some (JBool False)
      else None)"

definition integer_text :: "js_number \<Rightarrow> string" where
  "integer_text n =
     (case n of
        Finite q \<Rightarrow> (if q < 0 then ''-'' else []) @ decimal (nat \<lfloor>\<bar>q\<bar>\<rfloor>)
      | NaN \<Rightarrow> ''NaN''
      | Infinity positive \<Rightarrow> (if positive then ''Infinity'' else ''-Infinity''))"

definition digits_value :: "string \<Rightarrow> js_number" where
  "digits_value s =
     (if s \<noteq> [] \<and> list_all (\<lambda>c. 48 \<le> (of_char c :: nat) \<and> (of_char c :: nat) \<le> 57) s
      then Finite (of_nat (foldl (\<lambda>n c. 10 * n + (of_char c - 48)) 0 s))
      else NaN)"

fun holds :: "string \<Rightarrow> string \<Rightarrow> bool" where
  "holds [] pat = (pat = [])"
| "holds (c # cs) pat = (take (length pat) (c # cs) = pat \<or> holds cs pat)"

fun join_path :: "js list \<Rightarrow> error + string" where
  "join_path [] = Inr []"
| "join_path (p # ps) =
     bindE (ToString integer_text p) (\<lambda>part.
       if holds part ''/.'' then Inl (Error ''An invalid path parameter exists'')
       else bindE (join_path ps) (\<lambda>rest.
              Inr (CHR ''/'' # dropWhile (\<lambda>c. c = CHR ''/'') part @ rest)))"

definition cut_at_brace :: "string \<Rightarrow> string" where
  "cut_at_brace t = takeWhile (\<lambda>c. c \<noteq> CHR ''{'') t"

definition node :: runtime where
  "node =
     \<lparr> JSON_parse = parse_literal,
       path_extname = extname_posix,
       Number_toString = integer_text,
       Date_toISOString = ''2019-06-01T12:00:00.000Z'',
       parseFloat = digits_value,
       urlPath = join_path,
       expand_asset_path = cut_at_brace \<rparr>"

definition writer :: skills_writer where
  "writer =
     \<lparr> writer_requestId = JStr ''request-1'',
       writer_skillId = JStr ''42'',
       writer_fileId = JStr ''1001'',
       fileWriteClient = BasicClient (JStr ''write-token'') \<rparr>"

section \<open>Notions the properties are stated with\<close>

text \<open>
  The text of an entry (empty when it has none or when it is no string), whether the
  entry carries an image URL, and the entry as the card takes it: tagged with its type,
  its text trimmed.
\<close>

definition entry_text :: "js \<Rightarrow> string" where
  "entry_text d = (case get d ''text'' of Inr (JStr s) \<Rightarrow> s | _ \<Rightarrow> [])"

definition carries_image_url :: "js \<Rightarrow> bool" where
  "carries_image_url d = (case get d ''image_url'' of Inr (JStr u) \<Rightarrow> True | _ \<Rightarrow> False)"

definition normalised :: "js \<Rightarrow> js" where
  "normalised d =
     put (put d ''type'' (JStr (if carries_image_url d then ''image'' else ''text'')))
       ''text'' (JStr (trim (entry_text d)))"

text \<open>An entry that is an object whose \<open>text\<close> is absent, a string, or falsy.\<close>

definition plain_entry :: "js \<Rightarrow> bool" where
  "plain_entry d =
     (case d of
        JObj kv \<Rightarrow>
          (case map_of kv ''text'' of
             None \<Rightarrow> True
           | Some (JStr s) \<Rightarrow> True
           | Some v \<Rightarrow> \<not> truthy v)
      | _ \<Rightarrow> False)"

definition three_entries :: "js list" where
  "three_entries =
     [JObj [(''text'', JStr '' a '')], JObj [(''text'', JStr [])], JObj [(''text'', JStr ''  '')]]"

text \<open>A jimp that never fails on a URL, one that always fails, and a list of one face.\<close>

definition png_thumbnail :: "nat \<Rightarrow> js \<Rightarrow> string option" where
  "png_thumbnail i v =
     (case v of JStr url \<Rightarrow> Some (''data:image/png;base64,'' @ url) | _ \<Rightarrow> None)"


definition one_face :: "js list" where
  "one_face =
     [JObj [(''text'', JStr ''Ann''), (''image_url'', JStr ''https://example.com/ann.png'')]]"

text \<open>
  The field of an event at a path, \<open>undefined\<close> when the path leaves the object: a
  field that is absent reads as \<open>undefined\<close>.
\<close>

fun field :: "js \<Rightarrow> string list \<Rightarrow> js" where
  "field v [] = v"
| "field v (k # ks) = (case get v k of Inl e \<Rightarrow> JUndefined | Inr x \<Rightarrow> field x ks)"

declare field.simps [simp del]

text \<open>A computation that fails with errors of one kind only.\<close>

definition fails_only :: "(error \<Rightarrow> bool) \<Rightarrow> error + 'a \<Rightarrow> bool" where
  "fails_only P m = (case m of Inl e \<Rightarrow> P e | Inr x \<Rightarrow> True)"

text \<open>Two events: one without the id of its source, one without the source id, the
  source size and both access tokens.\<close>

definition event_without_file_id :: js where
  "event_without_file_id = JObj
     [(''id'', JStr ''request-1''),
      (''skill'', JObj [(''id'', JStr ''42'')]),
      (''source'', JObj [(''name'', JStr ''plan.DOCX''), (''size'', JNum (Finite 2048))]),
      (''token'',
         JObj [(''read'', JObj [(''access_token'', JStr ''read-token'')]),
               (''write'', JObj [(''access_token'', JStr ''write-token'')])])]"

definition event_of_names_only :: js where
  "event_of_names_only = JObj
     [(''id'', JStr ''request-1''),
      (''skill'', JObj [(''id'', JStr ''42'')]),
      (''source'', JObj [(''name'', JStr ''plan.DOCX'')]),
      (''token'', JObj [(''read'', JObj []), (''write'', JObj [])])]"

text \<open>A response that asks the poller to wait, and a FilesReader for an image.\<close>

definition waiting :: "error + response \<Rightarrow> bool" where
  "waiting a =
     (case a of
        Inl e \<Rightarrow> False
      | Inr r \<Rightarrow> status_state (response_body r) \<in> {''none'', ''pending''})"

definition reader :: files_reader where
  "reader =
     \<lparr> requestId = JStr ''request-1'',
       skillId = ''42'',
       fileId = JStr ''1001'',
       fileName = JStr ''photo.png'',
       fileSize = JNum (Finite 2048),
       fileFormat = ''png'',
       fileType = ''IMAGE'',
       fileDownloadURL = ''https://api.box.com/2.0/files/1001/content?access_token=read-token'',
       fileReadToken = JStr ''read-token'',
       fileWriteToken = JStr ''write-token'',
       fileReadClient = BasicClient (JStr ''read-token'') \<rparr>"

definition pending_entry :: "js \<Rightarrow> string \<Rightarrow> error + representation list" where
  "pending_entry file_id representationType =
     Inr [\<lparr> status_state = ''pending'', content_url_template = [], info_url = ''info'' \<rparr>]"

definition three_answers :: "response list" where
  "three_answers =
     [answer ''pending'' ''a/{+asset_path}'', answer ''pending'' ''b/{+asset_path}'',
      answer ''success'' ''c/{+asset_path}'']"

chapter \<open>Properties\<close>

section \<open>File type classification: the order of the look-ups\<close>

lemma lower_char_idem: "lower_char (lower_char c) = lower_char c"
proof -
  define n where "n = (of_char c :: nat)"
  show ?thesis
  proof (cases "(65 \<le> n \<and> n \<le> 90) \<or> (192 \<le> n \<and> n \<le> 222 \<and> n \<noteq> 215)")
    case True
    then have m: "(n + 32) mod 256 = n + 32" by auto
    have l: "lower_char c = char_of (n + 32)"
      using True by (auto simp: lower_char_def n_def Let_def)
    have "of_char (char_of (n + 32) :: char) = n + 32"
      using m by simp
    then have "lower_char (char_of (n + 32)) = char_of (n + 32)"
      using True unfolding lower_char_def Let_def by auto
    with l show ?thesis by simp
  next
    case False
    then have "lower_char c = c"
      by (auto simp: lower_char_def n_def Let_def)
    then show ?thesis by simp
  qed
qed

lemma toLowerCase_idem: "toLowerCase (toLowerCase s) = toLowerCase s"
  by (simp add: toLowerCase_def lower_char_idem)

lemma toLowerCase_dropWhile:
  "toLowerCase s = s \<Longrightarrow> toLowerCase (dropWhile p s) = dropWhile p s"
  unfolding toLowerCase_def
  by (induction s) auto

lemma format_of_Song: "getFileFormat extname_posix (JStr ''Song.MP3'') = Inr ''mp3''"
  by code_simp

lemma format_of_notes: "getFileFormat extname_posix (JStr ''notes.xyz'') = Inr ''xyz''"
  by code_simp

lemma mp3_is_audio: "''mp3'' \<in> set boxAudioFormats"
  by (simp add: boxAudioFormats_def)

lemma xyz_is_unknown:
  "''xyz'' \<notin> set boxAudioFormats \<and> ''xyz'' \<notin> set boxImageFormats
     \<and> ''xyz'' \<notin> set boxVideoFormats"
  by (simp add: boxAudioFormats_def boxImageFormats_def boxVideoFormats_def)

text \<open>
  C10. For every file name, the format that is classified is the extension in lower case
  without its leading dots; it is looked up in the audio formats first, then in the
  image formats, then in the video formats, and the first list that has it gives the
  type; a format in none of the three lists is a DOCUMENT.
\<close>

theorem getFileType_first_match:
  "getFileFormat ext (JStr name) = Inr f \<Longrightarrow>
     f = trimStart (toLowerCase (ext name)) ''.'' \<and>
     toLowerCase f = f \<and>
     (f \<in> set boxAudioFormats \<longrightarrow> getFileType f = ''AUDIO'') \<and>
     (f \<notin> set boxAudioFormats \<and> f \<in> set boxImageFormats \<longrightarrow> getFileType f = ''IMAGE'') \<and>
     (f \<notin> set boxAudioFormats \<and> f \<notin> set boxImageFormats \<and> f \<in> set boxVideoFormats
        \<longrightarrow> getFileType f = ''VIDEO'') \<and>
     (f \<notin> set boxAudioFormats \<and> f \<notin> set boxImageFormats \<and> f \<notin> set boxVideoFormats
        \<longrightarrow> getFileType f = ''DOCUMENT'')"
  by (auto simp: getFileFormat_def getFileType_def trimStart_def toLowerCase_idem
      toLowerCase_dropWhile)

theorem getFileType_first_match_witness:
  "getFileFormat extname_posix (JStr ''Song.MP3'') = Inr ''mp3'' \<and>
   ''mp3'' \<in> set boxAudioFormats \<and> getFileType ''mp3'' = ''AUDIO'' \<and>
   getFileFormat extname_posix (JStr ''notes.xyz'') = Inr ''xyz'' \<and>
   ''xyz'' \<notin> set boxAudioFormats \<and> ''xyz'' \<notin> set boxImageFormats \<and>
   ''xyz'' \<notin> set boxVideoFormats \<and> getFileType ''xyz'' = ''DOCUMENT''"
  using getFileType_first_match [OF format_of_Song] getFileType_first_match [OF format_of_notes]
    format_of_Song format_of_notes mp3_is_audio xyz_is_unknown
  by blast

section \<open>processDataList: the entries of a card\<close>

lemma bindE_Inr:
  "bindE m f = Inr y \<longleftrightarrow> (\<exists>x. m = Inr x \<and> f x = Inr y)"
  by (cases m) (simp_all add: bindE_def)

lemma bindE_simps [simp]:
  "bindE (Inl e) f = Inl e"
  "bindE (Inr x) f = f x"
  by (simp_all add: bindE_def)

lemma get_put:
  "get (put (JObj kv) k v) k' = (if k' = k then Inr v else get (JObj kv) k')"
  by (simp add: update_conv')

lemma has_text_Inr: "has_text d = Inr b \<Longrightarrow> b = (trim (entry_text d) \<noteq> [])"
  unfolding has_text_def entry_text_def
  by (cases "get d ''text''"; cases "projr (get d ''text'')" rule: truthy.cases)
     (auto simp: trim_def split: if_splits)

lemma has_text_object: "has_text d = Inr True \<Longrightarrow> \<exists>kv. d = JObj kv"
  unfolding has_text_def
  by (cases d) (auto split: if_splits)

lemma normalise_Inr:
  assumes "has_text d = Inr True" and "normalise duration d = Inr e"
  shows "e = normalised d"
proof -
  from assms(1) obtain kv where d: "d = JObj kv"
    using has_text_object by blast
  from assms(1) obtain s where s: "get d ''text'' = Inr (JStr s)"
    unfolding has_text_def
    by (cases "get d ''text''"; cases "projr (get d ''text'')" rule: truthy.cases)
       (auto split: if_splits)
  from assms(2) s show ?thesis
    unfolding normalise_def normalised_def entry_text_def carries_image_url_def d
    by (auto simp: bindE_Inr split: option.splits js.splits)
qed

lemma filterE_Inr:
  "filterE p xs = Inr ys \<Longrightarrow> ys = filter (\<lambda>x. p x = Inr True) xs \<and> (\<forall>x\<in>set xs. \<exists>b. p x = Inr b)"
  by (induction xs arbitrary: ys) (auto split: sum.splits if_splits)

lemma mapE_Inr:
  "mapE f xs = Inr ys \<Longrightarrow> \<forall>x\<in>set xs. \<forall>y. f x = Inr y \<longrightarrow> y = g x \<Longrightarrow> ys = map g xs"
  by (induction xs arbitrary: ys) (auto split: sum.splits)

lemma processDataList_Inr:
  assumes "processDataList dataList duration = Inr out"
  shows "out = map normalised (filter (\<lambda>d. trim (entry_text d) \<noteq> []) dataList)"
proof -
  from assms obtain kept where k: "filterE has_text dataList = Inr kept"
    and m: "mapE (normalise duration) kept = Inr out"
    by (auto simp: processDataList_def bindE_Inr)
  from filterE_Inr [OF k] have kept: "kept = filter (\<lambda>d. has_text d = Inr True) dataList"
    and all: "\<forall>d\<in>set dataList. \<exists>b. has_text d = Inr b" by auto
  have "filter (\<lambda>d. has_text d = Inr True) dataList
      = filter (\<lambda>d. trim (entry_text d) \<noteq> []) dataList"
  proof (intro filter_cong refl)
    fix d assume "d \<in> set dataList"
    with all obtain b where b: "has_text d = Inr b" by blast
    from has_text_Inr [OF b] b
    show "(has_text d = Inr True) = (trim (entry_text d) \<noteq> [])" by auto
  qed
  with kept have kept': "kept = filter (\<lambda>d. trim (entry_text d) \<noteq> []) dataList" by simp
  have "out = map normalised kept"
    using m
    by (rule mapE_Inr) (auto simp: kept intro: normalise_Inr)
  with kept' show ?thesis by simp
qed

lemma nonblank_object:
  "trim (entry_text d) \<noteq> [] \<Longrightarrow> \<exists>kv s. d = JObj kv \<and> map_of kv ''text'' = Some (JStr s)"
  unfolding entry_text_def
  by (cases d) (auto simp: trim_def split: option.splits js.splits if_splits)

lemma normalised_fields:
  assumes "trim (entry_text d) \<noteq> []"
  shows "get (normalised d) ''text'' = Inr (JStr (trim (entry_text d)))"
    and "get (normalised d) ''type''
           = Inr (JStr (if carries_image_url d then ''image'' else ''text''))"
    and "k \<noteq> ''text'' \<Longrightarrow> k \<noteq> ''type'' \<Longrightarrow> get (normalised d) k = get d k"
proof -
  from nonblank_object [OF assms] obtain kv where d: "d = JObj kv" by blast
  show "get (normalised d) ''text'' = Inr (JStr (trim (entry_text d)))"
    by (simp add: normalised_def d update_conv')
  show "get (normalised d) ''type''
           = Inr (JStr (if carries_image_url d then ''image'' else ''text''))"
    by (simp add: normalised_def d update_conv')
  show "k \<noteq> ''text'' \<Longrightarrow> k \<noteq> ''type'' \<Longrightarrow> get (normalised d) k = get d k"
    by (simp add: normalised_def d update_conv')
qed

lemma has_text_total: "plain_entry d \<Longrightarrow> \<exists>b. has_text d = Inr b"
  unfolding plain_entry_def has_text_def
  by (auto split: js.splits option.splits)

lemma normalise_total:
  "has_text d = Inr True \<Longrightarrow> \<not> truthy duration \<Longrightarrow> \<exists>e. normalise duration d = Inr e"
  unfolding has_text_def normalise_def check_appears_def
  by (cases d) (auto simp: bindE_Inr split: js.splits option.splits if_splits)

lemma filterE_total:
  "\<forall>x\<in>set xs. \<exists>b. p x = Inr b \<Longrightarrow> \<exists>ys. filterE p xs = Inr ys"
  by (induction xs) auto

lemma mapE_total:
  "\<forall>x\<in>set xs. \<exists>y. f x = Inr y \<Longrightarrow> \<exists>ys. mapE f xs = Inr ys"
  by (induction xs) auto

lemma processDataList_total:
  assumes "\<forall>d\<in>set dataList. plain_entry d" and "\<not> truthy duration"
  shows "\<exists>out. processDataList dataList duration = Inr out"
proof -
  from assms(1) have "\<forall>d\<in>set dataList. \<exists>b. has_text d = Inr b"
    by (blast dest: has_text_total)
  then obtain kept where k: "filterE has_text dataList = Inr kept"
    using filterE_total by blast
  from filterE_Inr [OF k] have "\<forall>d\<in>set kept. has_text d = Inr True" by simp
  with assms(2) have "\<forall>d\<in>set kept. \<exists>e. normalise duration d = Inr e"
    by (blast dest: normalise_total)
  then obtain out where "mapE (normalise duration) kept = Inr out"
    using mapE_total by blast
  with k show ?thesis by (simp add: processDataList_def)
qed

text \<open>
  C6. Whenever processDataList returns, it returns the entries whose text is not empty
  and not white space only, in their order, each with its text trimmed and tagged
  \<open>image\<close> when its image URL is a string and \<open>text\<close> otherwise, its other
  fields as they were. It returns for every list of plain entries when no duration is
  given.
\<close>

theorem processDataList_normalises:
  "(processDataList dataList duration = Inr out \<longrightarrow>
      out = map normalised (filter (\<lambda>d. trim (entry_text d) \<noteq> []) dataList)) \<and>
   (trim (entry_text d) \<noteq> [] \<longrightarrow>
      get (normalised d) ''text'' = Inr (JStr (trim (entry_text d))) \<and>
      get (normalised d) ''type''
        = Inr (JStr (if carries_image_url d then ''image'' else ''text'')) \<and>
      (\<forall>k. k \<noteq> ''text'' \<and> k \<noteq> ''type'' \<longrightarrow> get (normalised d) k = get d k)) \<and>
   ((\<forall>d\<in>set dataList. plain_entry d) \<and> \<not> truthy duration \<longrightarrow>
      (\<exists>entries. processDataList dataList duration = Inr entries))"
  using processDataList_Inr [of dataList duration out] normalised_fields [of d]
    processDataList_total [of dataList duration]
  by blast

lemma three_entries_processed:
  "processDataList three_entries JUndefined
     = Inr [JObj [(''text'', JStr ''a''), (''type'', JStr ''text'')]]"
  by code_simp

lemma three_entries_plain: "\<forall>d\<in>set three_entries. plain_entry d"
  by (simp add: three_entries_def plain_entry_def)

lemma first_entry_text: "trim (entry_text (JObj [(''text'', JStr '' a '')])) = ''a''"
  by code_simp

theorem processDataList_normalises_witness:
  "processDataList three_entries JUndefined
     = Inr [JObj [(''text'', JStr ''a''), (''type'', JStr ''text'')]] \<and>
   [JObj [(''text'', JStr ''a''), (''type'', JStr ''text'')]]
     = map normalised (filter (\<lambda>d. trim (entry_text d) \<noteq> []) three_entries) \<and>
   list_all plain_entry three_entries \<and> \<not> truthy JUndefined \<and>
   trim (entry_text (JObj [(''text'', JStr '' a '')])) \<noteq> [] \<and>
   get (normalised (JObj [(''text'', JStr '' a '')])) ''text'' = Inr (JStr ''a'') \<and>
   get (normalised (JObj [(''text'', JStr '' a '')])) ''type'' = Inr (JStr ''text'')"
proof -
  have c: "\<not> carries_image_url (JObj [(''text'', JStr '' a '')])"
    by (simp add: carries_image_url_def)
  show ?thesis
    using processDataList_normalises
      [of three_entries JUndefined "[JObj [(''text'', JStr ''a''), (''type'', JStr ''text'')]]"
          "JObj [(''text'', JStr '' a '')]"]
      three_entries_processed three_entries_plain first_entry_text c
    by (simp add: list_all_iff)
qed

section \<open>Saving cards\<close>

lemma status_values:
  "set (Object_values skillInvocationStatus)
     = JStr ` {''invoked'', ''processing'', ''skills_pending_status'', ''transient_failure'',
               ''permanent_failure'', ''success''}"
  by (simp add: Object_values_def skillInvocationStatus_def)

lemma unit_values:
  "set (Object_values usageUnit) = JStr ` {''files'', ''seconds'', ''pages'', ''words''}"
  by (simp add: Object_values_def usageUnit_def)

lemma error_values:
  "set (Object_values SkillsErrorEnum)
     = JStr ` {''skills_file_processing_error'', ''skills_invalid_file_size_error'',
               ''skills_invalid_file_format_error'', ''skills_invalid_event_error'',
               ''skills_no_info_found'', ''skills_invocations_error'',
               ''skills_external_auth_error'', ''skills_billing_error'',
               ''skills_unknown_error''}"
  by (simp add: Object_values_def SkillsErrorEnum_def)

lemma member_of_simps:
  "member_of skillInvocationStatus ''SUCCESS'' = ''success''"
  "member_of skillInvocationStatus ''PENDING'' = ''skills_pending_status''"
  "member_of skillInvocationStatus ''PROCESSING'' = ''processing''"
  "member_of skillInvocationStatus ''TRANSIENT_FAILURE'' = ''transient_failure''"
  "member_of skillInvocationStatus ''PERMANENT_FAILURE'' = ''permanent_failure''"
  "member_of usageUnit ''FILES'' = ''files''"
  "member_of SkillsErrorEnum ''UNKNOWN'' = ''skills_unknown_error''"
  "member_of SkillsErrorEnum ''FILE_PROCESSING_ERROR'' = ''skills_file_processing_error''"
  "member_of cardType ''STATUS'' = ''status''"
  "member_of cardType ''FACES'' = ''timeline''"
  "member_of cardTitle ''ERROR'' = ''Error''"
  "member_of cardTitle ''STATUS'' = ''Status''"
  "member_of cardTitle ''FACES'' = ''Faces''"
  by (simp_all add: member_of_def skillInvocationStatus_def usageUnit_def SkillsErrorEnum_def
      cardType_def cardTitle_def)

lemma Number_isInteger_iff:
  "Number_isInteger v \<longleftrightarrow> (\<exists>n. v = JNum (Finite (of_int n)))"
proof (cases v rule: Number_isInteger.cases)
  case (1 q)
  have "(of_int \<lfloor>q\<rfloor> = q) \<longleftrightarrow> (\<exists>n. q = of_int n)"
    by (metis floor_of_int)
  with 1 show ?thesis by auto
qed auto

lemma validateUsage_iff:
  "validateUsage usage \<longleftrightarrow>
     truthy usage \<and>
     get usage ''unit'' \<in> Inr ` JStr ` {''files'', ''seconds'', ''pages'', ''words''} \<and>
     (\<exists>n. get usage ''value'' = Inr (JNum (Finite (of_int n))))"
  unfolding validateUsage_def validateEnum_def unit_values Number_isInteger_iff
  by (cases "get usage ''unit''"; cases "get usage ''value''") auto

text \<open>What saveDataCards does, with the constants of the file written out: when
  \<open>urlPath\<close> throws, so does the call, and no request is made.\<close>

lemma saveDataCards_request:
  "saveDataCards rt this cards cb st usage =
     bindE (urlPath rt [JStr ''/skill_invocations'', writer_skillId this]) (\<lambda>path.
       Inr \<lparr> request_client = fileWriteClient this,
             apiPath = path,
             request_body = JObj
               [(''status'',
                   if validateEnum st skillInvocationStatus then st else JStr ''success''),
                (''file'', JObj [(''type'', JStr ''file''), (''id'', writer_fileId this)]),
                (''metadata'', JObj [(''cards'', JArr cards)]),
                (''usage'',
                   if (if validateEnum st skillInvocationStatus then st else JStr ''success'')
                        = JStr ''success''
                   then (if validateUsage usage then usage
                         else JObj [(''unit'', JStr ''files''), (''value'', JNum (Finite 1))])
                   else JNull)],
             request_headers =
               [(''Cache-Control'', ''no-cache''), (''Content-Type'', ''application/json'')],
             request_callback = cb \<rparr>)"
  by (simp add: saveDataCards_def putData_def Let_def member_of_simps DEFAULT_USAGE_def
      BASE_PATH_def)

text \<open>
  C2. When the path of the invocation can be built, saveDataCards hands one PUT to the
  write client, with the body \<open>{status, file: {type, id}, metadata: {cards}, usage}\<close>;
  when \<open>urlPath\<close> throws, the call throws and nothing is submitted. A status outside
  the invocation statuses is persisted as \<open>success\<close>. A usage is attached only when
  the persisted status is \<open>success\<close>, and is \<open>null\<close> otherwise; it is the usage
  given when that is valid, and \<open>{unit: files, value: 1}\<close> when it is absent or
  malformed. A usage is valid when it is truthy, its unit is one of files, seconds, pages
  and words, and its value is an integer.
\<close>

theorem saveDataCards_body:
  "\<exists>persisted attached.
     (\<forall>path. urlPath rt [JStr ''/skill_invocations'', writer_skillId this] = Inr path \<longrightarrow>
        saveDataCards rt this cards cb st usage = Inr
          \<lparr> request_client = fileWriteClient this,
            apiPath = path,
            request_body = JObj
              [(''status'', persisted),
               (''file'', JObj [(''type'', JStr ''file''), (''id'', writer_fileId this)]),
               (''metadata'', JObj [(''cards'', JArr cards)]),
               (''usage'', attached)],
            request_headers =
              [(''Cache-Control'', ''no-cache''), (''Content-Type'', ''application/json'')],
            request_callback = cb \<rparr>) \<and>
     (\<forall>e. urlPath rt [JStr ''/skill_invocations'', writer_skillId this] = Inl e \<longrightarrow>
        saveDataCards rt this cards cb st usage = Inl e) \<and>
     (st \<notin> JStr ` {''invoked'', ''processing'', ''skills_pending_status'',
                    ''transient_failure'', ''permanent_failure'', ''success''}
        \<longrightarrow> persisted = JStr ''success'') \<and>
     (persisted \<noteq> JStr ''success'' \<longrightarrow> attached = JNull) \<and>
     (persisted = JStr ''success'' \<and> validateUsage usage \<longrightarrow> attached = usage) \<and>
     (persisted = JStr ''success'' \<and> \<not> validateUsage usage \<longrightarrow>
        attached = JObj [(''unit'', JStr ''files''), (''value'', JNum (Finite 1))]) \<and>
     (usage = JUndefined \<or> usage = JNull \<longrightarrow> \<not> validateUsage usage) \<and>
     (validateUsage usage \<longleftrightarrow>
        truthy usage \<and>
        get usage ''unit'' \<in> Inr ` JStr ` {''files'', ''seconds'', ''pages'', ''words''} \<and>
        (\<exists>n. get usage ''value'' = Inr (JNum (Finite (of_int n)))))"
proof -
  let ?persisted = "if validateEnum st skillInvocationStatus then st else JStr ''success''"
  let ?attached =
    "if ?persisted = JStr ''success''
     then (if validateUsage usage then usage
           else JObj [(''unit'', JStr ''files''), (''value'', JNum (Finite 1))])
     else JNull"
  have absent: "usage = JUndefined \<or> usage = JNull \<longrightarrow> \<not> validateUsage usage"
    by (auto simp: validateUsage_def)
  have outside:
    "st \<notin> JStr ` {''invoked'', ''processing'', ''skills_pending_status'',
                    ''transient_failure'', ''permanent_failure'', ''success''}
       \<longrightarrow> ?persisted = JStr ''success''"
    by (simp add: validateEnum_def status_values)
  have made: "\<forall>path. urlPath rt [JStr ''/skill_invocations'', writer_skillId this] = Inr path \<longrightarrow>
        saveDataCards rt this cards cb st usage = Inr
          \<lparr> request_client = fileWriteClient this,
            apiPath = path,
            request_body = JObj
              [(''status'', ?persisted),
               (''file'', JObj [(''type'', JStr ''file''), (''id'', writer_fileId this)]),
               (''metadata'', JObj [(''cards'', JArr cards)]),
               (''usage'', ?attached)],
            request_headers =
              [(''Cache-Control'', ''no-cache''), (''Content-Type'', ''application/json'')],
            request_callback = cb \<rparr>"
    by (simp add: saveDataCards_request)
  have thrown: "\<forall>e. urlPath rt [JStr ''/skill_invocations'', writer_skillId this] = Inl e \<longrightarrow>
        saveDataCards rt this cards cb st usage = Inl e"
    by (simp add: saveDataCards_request)
  have null: "?persisted \<noteq> JStr ''success'' \<longrightarrow> ?attached = JNull"
    by simp
  have given: "?persisted = JStr ''success'' \<and> validateUsage usage \<longrightarrow> ?attached = usage"
    by simp
  have default: "?persisted = JStr ''success'' \<and> \<not> validateUsage usage \<longrightarrow>
      ?attached = JObj [(''unit'', JStr ''files''), (''value'', JNum (Finite 1))]"
    by simp
  show ?thesis
    by (rule exI [of _ ?persisted], rule exI [of _ ?attached])
       (intro conjI made thrown outside null given default absent validateUsage_iff)
qed

lemma pages_usage_valid:
  "validateUsage (JObj [(''unit'', JStr ''pages''), (''value'', JNum (Finite 3))])"
  by (simp add: validateUsage_def validateEnum_def unit_values)

lemma writer_path:
  "urlPath node [JStr ''/skill_invocations'', writer_skillId writer] = Inr ''/skill_invocations/42''"
  by code_simp

lemma traversal_path:
  "urlPath node [JStr ''/skill_invocations'', JStr ''7/..'']
     = Inl (Error ''An invalid path parameter exists'')"
  by code_simp

theorem saveDataCards_body_witness:
  "urlPath node [JStr ''/skill_invocations'', writer_skillId writer] = Inr ''/skill_invocations/42'' \<and>
   saveDataCards node writer [] None (JStr ''done'') JUndefined = Inr
     \<lparr> request_client = BasicClient (JStr ''write-token''),
       apiPath = ''/skill_invocations/42'',
       request_body = JObj
         [(''status'', JStr ''success''),
          (''file'', JObj [(''type'', JStr ''file''), (''id'', JStr ''1001'')]),
          (''metadata'', JObj [(''cards'', JArr [])]),
          (''usage'', JObj [(''unit'', JStr ''files''), (''value'', JNum (Finite 1))])],
       request_headers =
         [(''Cache-Control'', ''no-cache''), (''Content-Type'', ''application/json'')],
       request_callback = None \<rparr> \<and>
   bindE (saveDataCards node writer [] None (JStr ''done'')
            (JObj [(''unit'', JStr ''pages''), (''value'', JNum (Finite 3))]))
     (\<lambda>req. get (request_body req) ''usage'')
     = Inr (JObj [(''unit'', JStr ''pages''), (''value'', JNum (Finite 3))]) \<and>
   saveDataCards node (writer\<lparr>writer_skillId := JStr ''7/..''\<rparr>) [] None (JStr ''done'') JUndefined
     = Inl (Error ''An invalid path parameter exists'')"
proof -
  have p: "urlPath node [JStr ''/skill_invocations'',
        writer_skillId (writer\<lparr>writer_skillId := JStr ''7/..''\<rparr>)]
      = Inl (Error ''An invalid path parameter exists'')"
    using traversal_path by simp
  show ?thesis
    using saveDataCards_body [of node writer "[]" None "JStr ''done''" JUndefined]
      saveDataCards_body [of node writer "[]" None "JStr ''done''"
        "JObj [(''unit'', JStr ''pages''), (''value'', JNum (Finite 3))]"]
      saveDataCards_body [of node "writer\<lparr>writer_skillId := JStr ''7/..''\<rparr>" "[]" None
        "JStr ''done''" JUndefined]
      pages_usage_valid writer_path p
    by (auto simp: writer_def)
qed

text \<open>
  C8 (as amended). Every value of the invocation statuses of the code, which are invoked,
  processing, skills_pending_status, transient_failure, permanent_failure and success,
  is accepted by saveDataCards and, whenever the request is made, persisted as it is. The
  request is made exactly when \<open>urlPath\<close> does not throw. The status \<open>pending\<close> is
  not among them: it is replaced by \<open>success\<close>.
\<close>

theorem saveDataCards_keeps_status:
  "s \<in> {''invoked'', ''processing'', ''skills_pending_status'', ''transient_failure'',
         ''permanent_failure'', ''success''} \<Longrightarrow>
     JStr s \<in> set (Object_values skillInvocationStatus) \<and>
     validateEnum (JStr s) skillInvocationStatus \<and>
     (\<forall>path. urlPath rt [JStr ''/skill_invocations'', writer_skillId this] = Inr path \<longrightarrow>
        (\<exists>req. saveDataCards rt this cards cb (JStr s) usage = Inr req \<and>
               apiPath req = path \<and>
               get (request_body req) ''status'' = Inr (JStr s))) \<and>
     (\<forall>e. urlPath rt [JStr ''/skill_invocations'', writer_skillId this] = Inl e \<longrightarrow>
        saveDataCards rt this cards cb (JStr s) usage = Inl e)"
  unfolding saveDataCards_request validateEnum_def status_values
  by auto

theorem saveDataCards_keeps_status_witness:
  "''skills_pending_status'' \<in> {''invoked'', ''processing'', ''skills_pending_status'',
      ''transient_failure'', ''permanent_failure'', ''success''} \<and>
   urlPath node [JStr ''/skill_invocations'', writer_skillId writer] = Inr ''/skill_invocations/42'' \<and>
   bindE (saveDataCards node writer [] None (JStr ''skills_pending_status'') JUndefined)
     (\<lambda>req. get (request_body req) ''status'')
     = Inr (JStr ''skills_pending_status'')"
  using saveDataCards_keeps_status [of "''skills_pending_status''" node writer "[]" None JUndefined]
    writer_path
  by auto

theorem saveDataCards_pending_replaced:
  "\<not> validateEnum (JStr ''pending'') skillInvocationStatus \<and>
   bindE (saveDataCards node writer [] None (JStr ''pending'') JUndefined)
     (\<lambda>req. get (request_body req) ''status'')
     = Inr (JStr ''success'')"
  unfolding saveDataCards_request validateEnum_def status_values
  by (simp add: writer_path)

lemma skills_error_code:
  "replace (''skills_'' @ toLowerCase ''Error'') '' '' ''_'' = ''skills_error''"
  by code_simp

lemma error_code:
  "replace (toLowerCase ''Error'') '' '' ''_'' = ''error''"
  by code_simp

lemma createMetadataCard_Error:
  "createMetadataCard rt this (JStr ''status'') (JStr ''Error'') (JObj st) JUndefined JUndefined
     = Inr (JObj
         [(''created_at'', JStr (Date_toISOString rt)),
          (''type'', JStr ''skill_card''),
          (''skill'', JObj [(''type'', JStr ''service''), (''id'', writer_skillId this)]),
          (''skill_card_type'', JStr ''status''),
          (''skill_card_title'',
             JObj [(''code'', JStr ''skills_error''), (''message'', JStr ''Error'')]),
          (''invocation'',
             JObj [(''type'', JStr ''skill_invocation''), (''id'', writer_requestId this)]),
          (''status'', JObj st)])"
  by (simp add: createMetadataCard_def skills_error_code error_code Let_def
      SKILLS_METADATA_CARD_TYPE_def SKILLS_SERVICE_TYPE_def SKILLS_METADATA_INVOCATION_TYPE_def)

text \<open>
  C5. saveErrorCard builds one card, of type \<open>status\<close> and titled Error. The status of
  the card holds the error argument as its code when that is a value of the error
  enumeration, and \<open>skills_unknown_error\<close> otherwise; with a custom message, the code
  is \<open>custom_error\<close> and the message is stored, whatever the error argument. When the
  path of the invocation can be built, the request is made with that card alone, no
  usage, and the invocation status \<open>transient_failure\<close> when exactly that is passed as
  the failure type, \<open>permanent_failure\<close> in every other case; when \<open>urlPath\<close>
  throws, the call throws and nothing is submitted.
\<close>

theorem saveErrorCard_card:
  "\<exists>made.
     get made ''skill_card_type'' = Inr (JStr ''status'') \<and>
     get made ''skill_card_title''
       = Inr (JObj [(''code'', JStr ''skills_error''), (''message'', JStr ''Error'')]) \<and>
     get made ''status''
       = Inr (if truthy msg then JObj [(''code'', JStr ''custom_error''), (''message'', msg)]
              else JObj [(''code'',
                if err \<in> JStr ` {''skills_file_processing_error'',
                     ''skills_invalid_file_size_error'', ''skills_invalid_file_format_error'',
                     ''skills_invalid_event_error'', ''skills_no_info_found'',
                     ''skills_invocations_error'', ''skills_external_auth_error'',
                     ''skills_billing_error'', ''skills_unknown_error''}
                then err else JStr ''skills_unknown_error'')]) \<and>
     (\<forall>path. urlPath rt [JStr ''/skill_invocations'', writer_skillId this] = Inr path \<longrightarrow>
        (\<exists>req. saveErrorCard rt this err msg cb failure = Inr req \<and>
               apiPath req = path \<and>
               request_client req = fileWriteClient this \<and>
               get (request_body req) ''status''
                 = Inr (JStr (if failure = JStr ''transient_failure'' then ''transient_failure''
                              else ''permanent_failure'')) \<and>
               get (request_body req) ''metadata'' = Inr (JObj [(''cards'', JArr [made])]) \<and>
               get (request_body req) ''usage'' = Inr JNull)) \<and>
     (\<forall>e. urlPath rt [JStr ''/skill_invocations'', writer_skillId this] = Inl e \<longrightarrow>
        saveErrorCard rt this err msg cb failure = Inl e)"
proof -
  define st where "st =
    (if truthy msg then [(''code'', JStr ''custom_error''), (''message'', msg)]
     else [(''code'',
        if err \<in> JStr ` {''skills_file_processing_error'',
             ''skills_invalid_file_size_error'', ''skills_invalid_file_format_error'',
             ''skills_invalid_event_error'', ''skills_no_info_found'',
             ''skills_invocations_error'', ''skills_external_auth_error'',
             ''skills_billing_error'', ''skills_unknown_error''}
        then err else JStr ''skills_unknown_error'')])"
  let ?made = "JObj
    [(''created_at'', JStr (Date_toISOString rt)),
     (''type'', JStr ''skill_card''),
     (''skill'', JObj [(''type'', JStr ''service''), (''id'', writer_skillId this)]),
     (''skill_card_type'', JStr ''status''),
     (''skill_card_title'',
        JObj [(''code'', JStr ''skills_error''), (''message'', JStr ''Error'')]),
     (''invocation'',
        JObj [(''type'', JStr ''skill_invocation''), (''id'', writer_requestId this)]),
     (''status'', JObj st)]"
  let ?failure = "JStr (if failure = JStr ''transient_failure'' then ''transient_failure''
                        else ''permanent_failure'')"
  have call: "saveErrorCard rt this err msg cb failure
      = saveDataCards rt this [?made] cb ?failure JUndefined"
    unfolding saveErrorCard_def Let_def member_of_simps st_def
    by (cases "truthy msg")
       (auto simp add: createMetadataCard_Error validateEnum_def error_values)
  have valid: "validateEnum ?failure skillInvocationStatus"
    by (simp add: validateEnum_def status_values)
  have status: "get ?made ''status''
      = Inr (if truthy msg then JObj [(''code'', JStr ''custom_error''), (''message'', msg)]
             else JObj [(''code'',
               if err \<in> JStr ` {''skills_file_processing_error'',
                    ''skills_invalid_file_size_error'', ''skills_invalid_file_format_error'',
                    ''skills_invalid_event_error'', ''skills_no_info_found'',
                    ''skills_invocations_error'', ''skills_external_auth_error'',
                    ''skills_billing_error'', ''skills_unknown_error''}
               then err else JStr ''skills_unknown_error'')])"
    by (simp add: st_def)
  have made: "\<forall>path. urlPath rt [JStr ''/skill_invocations'', writer_skillId this] = Inr path \<longrightarrow>
      (\<exists>req. saveErrorCard rt this err msg cb failure = Inr req \<and>
             apiPath req = path \<and>
             request_client req = fileWriteClient this \<and>
             get (request_body req) ''status'' = Inr ?failure \<and>
             get (request_body req) ''metadata'' = Inr (JObj [(''cards'', JArr [?made])]) \<and>
             get (request_body req) ''usage'' = Inr JNull)"
    unfolding call saveDataCards_request using valid by auto
  have thrown: "\<forall>e. urlPath rt [JStr ''/skill_invocations'', writer_skillId this] = Inl e \<longrightarrow>
      saveErrorCard rt this err msg cb failure = Inl e"
    unfolding call saveDataCards_request by simp
  show ?thesis
    by (rule exI [of _ ?made]) (intro conjI status made thrown; simp)
qed

theorem saveErrorCard_card_witness:
  "urlPath node [JStr ''/skill_invocations'', writer_skillId writer] = Inr ''/skill_invocations/42'' \<and>
   (\<exists>req made.
     saveErrorCard node writer (JStr ''boom'') JUndefined None JUndefined = Inr req \<and>
     get (request_body req) ''status'' = Inr (JStr ''permanent_failure'') \<and>
     get (request_body req) ''metadata'' = Inr (JObj [(''cards'', JArr [made])]) \<and>
     get made ''status'' = Inr (JObj [(''code'', JStr ''skills_unknown_error'')]))"
  using saveErrorCard_card [of JUndefined "JStr ''boom''" node writer None JUndefined] writer_path
  by auto

section \<open>createFacesCard\<close>

lemma get_put_object: "get (put (JObj kv) k v) k' = (if k' = k then Inr v else get (JObj kv) k')"
  by (simp add: update_conv')

lemma title_or_lowered:
  "\<not> truthy title \<or> typeof_string title \<Longrightarrow> \<exists>l. call_toLowerCase (title_or title d) = Inr l"
  by (cases title rule: typeof_string.cases) (auto simp: title_or_def)

lemma mapE_map: "\<forall>x\<in>set xs. f x = Inr (g x) \<Longrightarrow> mapE f xs = Inr (map g xs)"
  by (induction xs) auto

lemma snd_Object_entries:
  "p \<in> set (enumerate n (Object_entries xs)) \<Longrightarrow> get (snd p) ''image_url'' = Inr JUndefined"
proof (cases p)
  case (Pair i y)
  assume "p \<in> set (enumerate n (Object_entries xs))"
  with Pair have "y \<in> set (Object_entries xs)"
    by (auto simp: enumerate_eq_zip dest: set_zip_rightD)
  then obtain a where "y = JArr a"
    by (auto simp: Object_entries_def)
  with Pair show ?thesis by simp
qed

lemma dataURIs_of_entries:
  "mapE (dataURIPromise thumbnail) (enumerate 0 (Object_entries xs))
     = Inr (map (\<lambda>i. case thumbnail i JUndefined of None \<Rightarrow> JUndefined | Some uri \<Rightarrow> JStr uri)
              [0..<length xs])"
proof -
  let ?uri = "\<lambda>i. case thumbnail i JUndefined of None \<Rightarrow> JUndefined | Some uri \<Rightarrow> JStr uri"
  have "mapE (dataURIPromise thumbnail) (enumerate 0 (Object_entries xs))
      = Inr (map (\<lambda>p. ?uri (fst p)) (enumerate 0 (Object_entries xs)))"
    by (rule mapE_map) (simp add: dataURIPromise_def snd_Object_entries)
  also have "map (\<lambda>p. ?uri (fst p)) (enumerate 0 (Object_entries xs))
      = map ?uri (map fst (enumerate 0 (Object_entries xs)))"
    by (simp only: map_map comp_def)
  also have "map fst (enumerate 0 (Object_entries xs)) = [0..<length xs]"
    by (simp add: Object_entries_def)
  finally show ?thesis .
qed






lemma bindE_InrE:
  assumes "bindE m f = Inr r"
  obtains x where "m = Inr x" and "f x = Inr r"
  using assms by (cases m) simp_all















text \<open>The image operations are consulted at \<open>undefined\<close> only: what they would do with
  a URL has no effect on the card.\<close>

lemma createFacesCard_thumbnail_argument:
  "\<forall>i. thumbnail i JUndefined = other i JUndefined \<Longrightarrow>
     createFacesCard rt thumbnail this faces duration title
       = createFacesCard rt other this faces duration title"
  by (simp add: createFacesCard_def dataURIs_of_entries)

text \<open>
  C3. The loop that starts the image operations runs over
  \<open>Object.entries(facesDataListProcessed)\<close>, whose elements are the pairs
  \<open>[index, entry]\<close>: \<open>faceData.image_url\<close> is \<open>undefined\<close> for each of them,
  so jimp is never given the URL of an entry. With a jimp that turns every URL into a
  data URI, the card of a face with an image URL still carries the URL, not the data URI.
\<close>

theorem createFacesCard_keeps_url:
  "png_thumbnail 0 (JStr ''https://example.com/ann.png'')
     = Some ''data:image/png;base64,https://example.com/ann.png'' \<and>
   bindE (createFacesCard node png_thumbnail writer one_face JUndefined JUndefined)
     (\<lambda>card. get card ''entries'')
     = Inr (JArr [JObj [(''text'', JStr ''Ann''),
                        (''image_url'', JStr ''https://example.com/ann.png''),
                        (''type'', JStr ''image'')]])"
  by code_simp

section \<open>The title code\<close>

lemma replace_first_only:
  "CHR '' '' \<notin> set a \<Longrightarrow> replace (a @ '' '' @ b) '' '' ''_'' = a @ ''_'' @ b"
  by (induction a) auto

lemma title_code:
  "createMetadataCard rt this type (JStr title) st entries duration = Inr made \<Longrightarrow>
     bindE (get made ''skill_card_title'') (\<lambda>t. get t ''code'')
       = Inr (JStr (replace (''skills_'' @ toLowerCase title) '' '' ''_''))"
  by (cases "truthy duration"; cases "truthy entries";
      cases "ToString (Number_toString rt) duration")
     (auto simp: createMetadataCard_def Let_def update_conv')

lemma lower_char_space: "lower_char c = CHR '' '' \<longleftrightarrow> c = CHR '' ''"
proof -
  define n where "n = (of_char c :: nat)"
  have space: "of_char (CHR '' '') = (32::nat)" by simp
  show ?thesis
  proof (cases "(65 \<le> n \<and> n \<le> 90) \<or> (192 \<le> n \<and> n \<le> 222 \<and> n \<noteq> 215)")
    case True
    then have m: "(n + 32) mod 256 = n + 32" by auto
    have l: "lower_char c = char_of (n + 32)"
      using True by (auto simp: lower_char_def n_def Let_def)
    have o: "of_char (char_of (n + 32) :: char) = n + 32"
      using m by simp
    have "char_of (n + 32) \<noteq> CHR '' ''"
    proof
      assume "char_of (n + 32) = CHR '' ''"
      then have "of_char (char_of (n + 32) :: char) = (32::nat)"
        by (simp only: space)
      with o have "n = 0" by simp
      with True show False by simp
    qed
    moreover have "c \<noteq> CHR '' ''"
    proof
      assume "c = CHR '' ''"
      then have "n = 32" by (simp add: n_def)
      with True show False by simp
    qed
    ultimately show ?thesis using l by simp
  next
    case False
    then have "lower_char c = c"
      by (auto simp: lower_char_def n_def Let_def)
    then show ?thesis by simp
  qed
qed

lemma space_lower_char: "CHR '' '' = lower_char c \<longleftrightarrow> c = CHR '' ''"
  using lower_char_space [of c] by auto

lemma toLowerCase_spaces: "CHR '' '' \<in> set (toLowerCase s) \<longleftrightarrow> CHR '' '' \<in> set s"
  by (induction s) (auto simp: toLowerCase_def lower_char_space space_lower_char)

lemma title_code_keeps_second_space:
  assumes "CHR '' '' \<notin> set a" and "CHR '' '' \<in> set b"
    and "createMetadataCard rt this type (JStr (a @ '' '' @ b)) st entries duration = Inr made"
  shows "\<exists>code. bindE (get made ''skill_card_title'') (\<lambda>t. get t ''code'') = Inr (JStr code)
           \<and> CHR '' '' \<in> set code"
proof -
  have "toLowerCase (a @ '' '' @ b) = toLowerCase a @ '' '' @ toLowerCase b"
    by (simp add: toLowerCase_def lower_char_space)
  moreover have "CHR '' '' \<notin> set (''skills_'' @ toLowerCase a)"
    using assms(1) by (simp add: toLowerCase_spaces)
  ultimately have "replace (''skills_'' @ toLowerCase (a @ '' '' @ b)) '' '' ''_''
      = (''skills_'' @ toLowerCase a) @ ''_'' @ toLowerCase b"
    using replace_first_only [of "''skills_'' @ toLowerCase a" "toLowerCase b"] by simp
  moreover have "CHR '' '' \<in> set (toLowerCase b)"
    using assms(2) by (simp add: toLowerCase_spaces)
  ultimately show ?thesis
    using title_code [OF assms(3)] by simp
qed

text \<open>
  C9. The title code is \<open>skills_\<close> and the title in lower case, with the first space
  replaced by an underscore: \<open>replace\<close> with a string pattern stops after one
  replacement. It depends on the title only. For a title with two spaces the second one
  stays in the code.
\<close>

theorem createMetadataCard_second_space_stays:
  "bindE (createMetadataCard node writer (JStr ''status'') (JStr ''My Custom Title'')
            JUndefined JUndefined JUndefined)
     (\<lambda>card. bindE (get card ''skill_card_title'') (\<lambda>t. get t ''code''))
     = Inr (JStr ''skills_my_custom title'')"
  by code_simp

section \<open>FilesReader\<close>

lemma fails_only_Inr [simp]: "fails_only P (Inr x)"
  by (simp add: fails_only_def)

lemma fails_only_Inl [simp]: "fails_only P (Inl e) = P e"
  by (simp add: fails_only_def)

lemma fails_only_bindE:
  "fails_only P m \<Longrightarrow> (\<And>x. fails_only P (f x)) \<Longrightarrow> fails_only P (bindE m f)"
  by (cases m) (simp_all add: fails_only_def)

lemma fails_only_get: "P TypeError \<Longrightarrow> fails_only P (get v k)"
  by (cases v) simp_all

lemma fails_only_ToString:
  "P TypeError \<Longrightarrow> fails_only P (ToString ns v)"
  "P TypeError \<Longrightarrow> fails_only P (join ns vs)"
  "P TypeError \<Longrightarrow> fails_only P (element ns v)"
  by (induction ns v and ns vs and ns v rule: ToString_join_element.induct)
     (auto split: sum.splits simp: fails_only_def)

lemma fails_only_call_toString: "P TypeError \<Longrightarrow> fails_only P (call_toString ns v)"
  by (cases v) (simp_all add: fails_only_ToString)

lemma fails_only_getFileFormat: "P TypeError \<Longrightarrow> fails_only P (getFileFormat ext v)"
  by (cases v) (simp_all add: getFileFormat_def)

lemma fails_only_FilesReader:
  assumes "P TypeError" and "fails_only P (parse_body rt body)"
  shows "fails_only P (FilesReader rt body)"
  unfolding FilesReader_def
  by (intro fails_only_bindE fails_only_get fails_only_ToString fails_only_call_toString
      fails_only_getFileFormat fails_only_Inr assms)

lemma parse_body_object: "typeof_object body \<Longrightarrow> parse_body rt body = Inr body"
  by (simp add: parse_body_def)

lemma fails_only_parse_body:
  "fails_only (\<lambda>e. e = TypeError \<or> e = SyntaxError) (parse_body rt body)"
  unfolding parse_body_def
  by (auto intro!: fails_only_bindE fails_only_ToString split: option.splits)

lemma FilesReader_errors:
  "FilesReader rt body = Inl e \<Longrightarrow> e = TypeError \<or> e = SyntaxError"
  using fails_only_FilesReader [of "\<lambda>e. e = TypeError \<or> e = SyntaxError" rt body]
    fails_only_parse_body [of rt body]
  by (simp add: fails_only_def)

lemma FilesReader_parsed_errors:
  "parse_body rt body = Inr event \<Longrightarrow> FilesReader rt body = Inl e \<Longrightarrow> e = TypeError"
  using fails_only_FilesReader [of "\<lambda>e. e = TypeError" rt body]
  by (simp add: fails_only_def)

lemma FilesReader_unparsed: "parse_body rt body = Inl e \<Longrightarrow> FilesReader rt body = Inl e"
  by (simp add: FilesReader_def)

lemma parse_body_errors: "parse_body rt body = Inl e \<Longrightarrow> e = TypeError \<or> e = SyntaxError"
  using fails_only_parse_body [of rt body] by (simp add: fails_only_def)

lemma field_get: "get v k = Inr x \<Longrightarrow> field v (k # ks) = field x ks"
  by (simp add: field.simps)

lemma field_1: "get v k = Inr x \<Longrightarrow> field v [k] = x"
  by (simp add: field.simps)

lemma get_total: "get v k = Inr x \<Longrightarrow> get v k' = Inr (field v [k'])"
  by (cases v) (auto simp: field.simps)

lemma get_defined: "v \<noteq> JUndefined \<Longrightarrow> v \<noteq> JNull \<Longrightarrow> get v k = Inr (field v [k])"
  by (cases v) (auto simp: field.simps)

lemma field_2:
  "field v [a, b] \<noteq> JUndefined \<Longrightarrow> \<exists>y. get v a = Inr y \<and> get y b = Inr (field v [a, b])"
  by (auto simp: field.simps split: sum.splits)

lemma FilesReader_success:
  assumes parsed: "parse_body rt body = Inr event"
    and "call_toString (Number_toString rt) (field event [''skill'', ''id'']) = Inr sid"
    and "field event [''source'', ''name''] = JStr name"
    and "field event [''token'', ''read''] \<noteq> JUndefined"
    and "field event [''token'', ''read''] \<noteq> JNull"
    and "field event [''token'', ''write''] \<noteq> JUndefined"
    and "field event [''token'', ''write''] \<noteq> JNull"
    and "ToString (Number_toString rt) (field event [''source'', ''id'']) = Inr fid"
    and "ToString (Number_toString rt) (field event [''token'', ''read'', ''access_token''])
           = Inr tok"
  shows "FilesReader rt body = Inr
     \<lparr> requestId = field event [''id''],
       skillId = sid,
       fileId = field event [''source'', ''id''],
       fileName = JStr name,
       fileSize = field event [''source'', ''size''],
       fileFormat = trimStart (toLowerCase (path_extname rt name)) ''.'',
       fileType = getFileType (trimStart (toLowerCase (path_extname rt name)) ''.''),
       fileDownloadURL =
         ''https://api.box.com/2.0/files/'' @ fid @ ''/content?access_token='' @ tok,
       fileReadToken = field event [''token'', ''read'', ''access_token''],
       fileWriteToken = field event [''token'', ''write'', ''access_token''],
       fileReadClient = BasicClient (field event [''token'', ''read'', ''access_token'']) \<rparr>"
proof -
  from assms(2) have "field event [''skill'', ''id''] \<noteq> JUndefined"
    by (cases "field event [''skill'', ''id'']") auto
  from field_2 [OF this] obtain skill
    where skill: "get event ''skill'' = Inr skill"
      and skill_id: "get skill ''id'' = Inr (field event [''skill'', ''id''])" by blast
  from assms(3) have "field event [''source'', ''name''] \<noteq> JUndefined" by simp
  from field_2 [OF this] obtain source
    where source: "get event ''source'' = Inr source"
      and "get source ''name'' = Inr (field event [''source'', ''name''])" by blast
  with assms(3) have source_name: "get source ''name'' = Inr (JStr name)" by simp
  from field_2 [OF assms(4)] obtain token
    where token: "get event ''token'' = Inr token"
      and token_read: "get token ''read'' = Inr (field event [''token'', ''read''])" by blast
  from field_2 [OF assms(6)] token
  have token_write: "get token ''write'' = Inr (field event [''token'', ''write''])" by auto
  have request_id: "get event ''id'' = Inr (field event [''id''])"
    by (rule get_total [OF skill])
  have source_id: "get source ''id'' = Inr (field event [''source'', ''id''])"
    using get_total [OF source_name, of "''id''"] field_get [OF source, of "[''id'']"]
    by simp
  have source_size: "get source ''size'' = Inr (field event [''source'', ''size''])"
    using get_total [OF source_name, of "''size''"] field_get [OF source, of "[''size'']"]
    by simp
  have read_token: "get (field event [''token'', ''read'']) ''access_token''
      = Inr (field event [''token'', ''read'', ''access_token''])"
    using get_defined [OF assms(4,5), of "''access_token''"]
      field_get [OF token, of "[''read'', ''access_token'']"]
      field_get [OF token_read, of "[''access_token'']"]
    by simp
  have write_token: "get (field event [''token'', ''write'']) ''access_token''
      = Inr (field event [''token'', ''write'', ''access_token''])"
    using get_defined [OF assms(6,7), of "''access_token''"]
      field_get [OF token, of "[''write'', ''access_token'']"]
      field_get [OF token_write, of "[''access_token'']"]
    by simp
  show ?thesis
    unfolding FilesReader_def parsed bindE_simps
      request_id skill skill_id assms(2) source source_id source_name source_size
      token token_read token_write read_token write_token assms(8,9)
    by (simp add: getFileFormat_def BOX_API_ENDPOINT_def)
qed

lemma FilesReader_needs:
  assumes parsed: "parse_body rt body = Inr event" and "FilesReader rt body = Inr r"
  shows "\<not> isl (call_toString (Number_toString rt) (field event [''skill'', ''id''])) \<and>
         typeof_string (field event [''source'', ''name'']) \<and>
         field event [''token'', ''read''] \<notin> {JUndefined, JNull} \<and>
         field event [''token'', ''write''] \<notin> {JUndefined, JNull} \<and>
         \<not> isl (ToString (Number_toString rt) (field event [''source'', ''id''])) \<and>
         \<not> isl (ToString (Number_toString rt)
                  (field event [''token'', ''read'', ''access_token'']))"
proof -
  from assms(2) obtain request_id skill skill_id sid source file_id file_name file_size fmt
      token token_read read_token token_write write_token fid tok
    where "get event ''id'' = Inr request_id"
      and skill: "get event ''skill'' = Inr skill"
      and skill_id: "get skill ''id'' = Inr skill_id"
      and sid: "call_toString (Number_toString rt) skill_id = Inr sid"
      and source: "get event ''source'' = Inr source"
      and file_id: "get source ''id'' = Inr file_id"
      and name: "get source ''name'' = Inr file_name"
      and "get source ''size'' = Inr file_size"
      and fmt: "getFileFormat (path_extname rt) file_name = Inr fmt"
      and token: "get event ''token'' = Inr token"
      and token_read: "get token ''read'' = Inr token_read"
      and read_token: "get token_read ''access_token'' = Inr read_token"
      and token_write: "get token ''write'' = Inr token_write"
      and write_token: "get token_write ''access_token'' = Inr write_token"
      and fid: "ToString (Number_toString rt) file_id = Inr fid"
      and tok: "ToString (Number_toString rt) read_token = Inr tok"
    unfolding FilesReader_def parsed bindE_simps
    by (elim bindE_InrE) blast
  have 1: "field event [''skill'', ''id''] = skill_id"
    using field_get [OF skill, of "[''id'']"] field_1 [OF skill_id] by simp
  have 2: "field event [''source'', ''name''] = file_name"
    using field_get [OF source, of "[''name'']"] field_1 [OF name] by simp
  have 3: "field event [''token'', ''read''] = token_read"
    using field_get [OF token, of "[''read'']"] field_1 [OF token_read] by simp
  have 4: "field event [''token'', ''write''] = token_write"
    using field_get [OF token, of "[''write'']"] field_1 [OF token_write] by simp
  have 5: "field event [''source'', ''id''] = file_id"
    using field_get [OF source, of "[''id'']"] field_1 [OF file_id] by simp
  have 6: "field event [''token'', ''read'', ''access_token''] = read_token"
    using field_get [OF token, of "[''read'', ''access_token'']"]
      field_get [OF token_read, of "[''access_token'']"] field_1 [OF read_token] by simp
  from fmt have "typeof_string file_name"
    by (cases file_name) (simp_all add: getFileFormat_def)
  moreover from read_token have "token_read \<notin> {JUndefined, JNull}" by auto
  moreover from write_token have "token_write \<notin> {JUndefined, JNull}" by auto
  ultimately show ?thesis
    unfolding 1 2 3 4 5 6 using sid fid tok by simp
qed

lemma FilesReader_fails:
  assumes "parse_body rt body = Inr event"
    and "isl (call_toString (Number_toString rt) (field event [''skill'', ''id''])) \<or>
         \<not> typeof_string (field event [''source'', ''name'']) \<or>
         field event [''token'', ''read''] \<in> {JUndefined, JNull} \<or>
         field event [''token'', ''write''] \<in> {JUndefined, JNull} \<or>
         isl (ToString (Number_toString rt) (field event [''source'', ''id''])) \<or>
         isl (ToString (Number_toString rt) (field event [''token'', ''read'', ''access_token'']))"
  shows "FilesReader rt body = Inl TypeError"
proof (cases "FilesReader rt body")
  case (Inl e)
  with FilesReader_parsed_errors [OF assms(1)] show ?thesis by blast
next
  case (Inr r)
  from FilesReader_needs [OF assms(1) Inr] assms(2) show ?thesis by blast
qed

lemma parse_body_string:
  "parse_body rt (JStr s) = (case JSON_parse rt s of None \<Rightarrow> Inl SyntaxError | Some v \<Rightarrow> Inr v)"
  by (simp add: parse_body_def)

text \<open>
  C7 (as amended). Building a FilesReader checks nothing and never raises the
  invalid-event error, nor any other \<open>Error\<close>. The body is taken as it is when it is
  an object and parsed as JSON otherwise; a body that does not parse fails with the
  error of the parse, a SyntaxError or a TypeError. Of the parsed event the skill id
  must have a \<open>toString\<close>, the source name must be a string, and \<open>token.read\<close> and
  \<open>token.write\<close> must be neither \<open>undefined\<close> nor \<open>null\<close>; the source id and the
  read access token must convert to strings, as every primitive does. Then the
  FilesReader is built, otherwise the constructor fails with a TypeError. The source
  id, the source size and the two access tokens may each be absent: the FilesReader is
  built all the same and holds \<open>undefined\<close> in their fields, and the text
  \<open>undefined\<close> in the download URL.
\<close>

theorem FilesReader_validates_nothing:
  "FilesReader rt body \<noteq> Inl (Error m) \<and>
   (typeof_object body \<longrightarrow> parse_body rt body = Inr body) \<and>
   parse_body rt (JStr s)
     = (case JSON_parse rt s of None \<Rightarrow> Inl SyntaxError | Some v \<Rightarrow> Inr v) \<and>
   (parse_body rt body = Inl e \<longrightarrow>
      FilesReader rt body = Inl e \<and> (e = TypeError \<or> e = SyntaxError)) \<and>
   (parse_body rt body = Inr event \<and>
    call_toString (Number_toString rt) (field event [''skill'', ''id'']) = Inr sid \<and>
    field event [''source'', ''name''] = JStr name \<and>
    field event [''token'', ''read''] \<notin> {JUndefined, JNull} \<and>
    field event [''token'', ''write''] \<notin> {JUndefined, JNull} \<and>
    ToString (Number_toString rt) (field event [''source'', ''id'']) = Inr fid \<and>
    ToString (Number_toString rt) (field event [''token'', ''read'', ''access_token'']) = Inr tok
      \<longrightarrow> FilesReader rt body = Inr
            \<lparr> requestId = field event [''id''],
              skillId = sid,
              fileId = field event [''source'', ''id''],
              fileName = JStr name,
              fileSize = field event [''source'', ''size''],
              fileFormat = trimStart (toLowerCase (path_extname rt name)) ''.'',
              fileType = getFileType (trimStart (toLowerCase (path_extname rt name)) ''.''),
              fileDownloadURL =
                ''https://api.box.com/2.0/files/'' @ fid @ ''/content?access_token='' @ tok,
              fileReadToken = field event [''token'', ''read'', ''access_token''],
              fileWriteToken = field event [''token'', ''write'', ''access_token''],
              fileReadClient =
                BasicClient (field event [''token'', ''read'', ''access_token'']) \<rparr>) \<and>
   (parse_body rt body = Inr event \<and>
    (isl (call_toString (Number_toString rt) (field event [''skill'', ''id''])) \<or>
     \<not> typeof_string (field event [''source'', ''name'']) \<or>
     field event [''token'', ''read''] \<in> {JUndefined, JNull} \<or>
     field event [''token'', ''write''] \<in> {JUndefined, JNull} \<or>
     isl (ToString (Number_toString rt) (field event [''source'', ''id''])) \<or>
     isl (ToString (Number_toString rt) (field event [''token'', ''read'', ''access_token''])))
      \<longrightarrow> FilesReader rt body = Inl TypeError) \<and>
   call_toString (Number_toString rt) JUndefined = Inl TypeError \<and>
   ToString (Number_toString rt) JUndefined = Inr ''undefined''"
proof (intro conjI impI)
  show "FilesReader rt body \<noteq> Inl (Error m)"
    using FilesReader_errors [of rt body "Error m"] by auto
next
  assume "typeof_object body"
  then show "parse_body rt body = Inr body" by (rule parse_body_object)
next
  show "parse_body rt (JStr s)
     = (case JSON_parse rt s of None \<Rightarrow> Inl SyntaxError | Some v \<Rightarrow> Inr v)"
    by (rule parse_body_string)
next
  assume "parse_body rt body = Inl e"
  then show "FilesReader rt body = Inl e" by (rule FilesReader_unparsed)
next
  assume "parse_body rt body = Inl e"
  then show "e = TypeError \<or> e = SyntaxError" by (rule parse_body_errors)
next
  assume a: "parse_body rt body = Inr event \<and>
    call_toString (Number_toString rt) (field event [''skill'', ''id'']) = Inr sid \<and>
    field event [''source'', ''name''] = JStr name \<and>
    field event [''token'', ''read''] \<notin> {JUndefined, JNull} \<and>
    field event [''token'', ''write''] \<notin> {JUndefined, JNull} \<and>
    ToString (Number_toString rt) (field event [''source'', ''id'']) = Inr fid \<and>
    ToString (Number_toString rt) (field event [''token'', ''read'', ''access_token'']) = Inr tok"
  then show "FilesReader rt body = Inr
            \<lparr> requestId = field event [''id''],
              skillId = sid,
              fileId = field event [''source'', ''id''],
              fileName = JStr name,
              fileSize = field event [''source'', ''size''],
              fileFormat = trimStart (toLowerCase (path_extname rt name)) ''.'',
              fileType = getFileType (trimStart (toLowerCase (path_extname rt name)) ''.''),
              fileDownloadURL =
                ''https://api.box.com/2.0/files/'' @ fid @ ''/content?access_token='' @ tok,
              fileReadToken = field event [''token'', ''read'', ''access_token''],
              fileWriteToken = field event [''token'', ''write'', ''access_token''],
              fileReadClient =
                BasicClient (field event [''token'', ''read'', ''access_token'']) \<rparr>"
    using FilesReader_success [of rt body event sid name fid tok] by simp
next
  assume "parse_body rt body = Inr event \<and>
    (isl (call_toString (Number_toString rt) (field event [''skill'', ''id''])) \<or>
     \<not> typeof_string (field event [''source'', ''name'']) \<or>
     field event [''token'', ''read''] \<in> {JUndefined, JNull} \<or>
     field event [''token'', ''write''] \<in> {JUndefined, JNull} \<or>
     isl (ToString (Number_toString rt) (field event [''source'', ''id''])) \<or>
     isl (ToString (Number_toString rt) (field event [''token'', ''read'', ''access_token''])))"
  then show "FilesReader rt body = Inl TypeError"
    using FilesReader_fails [of rt body event] by blast
qed simp_all

lemma names_only_fields:
  "typeof_object event_of_names_only"
  "call_toString (Number_toString node) (field event_of_names_only [''skill'', ''id'']) = Inr ''42''"
  "field event_of_names_only [''source'', ''name''] = JStr ''plan.DOCX''"
  "field event_of_names_only [''token'', ''read''] \<notin> {JUndefined, JNull}"
  "field event_of_names_only [''token'', ''write''] \<notin> {JUndefined, JNull}"
  "field event_of_names_only [''source'', ''id''] = JUndefined"
  "field event_of_names_only [''source'', ''size''] = JUndefined"
  "field event_of_names_only [''token'', ''read'', ''access_token''] = JUndefined"
  "field event_of_names_only [''token'', ''write'', ''access_token''] = JUndefined"
  "field event_of_names_only [''id''] = JStr ''request-1''"
  by (simp_all add: event_of_names_only_def field.simps)

lemma docx_format:
  "trimStart (toLowerCase (path_extname node ''plan.DOCX'')) ''.'' = ''docx''"
  "getFileType ''docx'' = ''DOCUMENT''"
  by code_simp+

lemma string_bodies:
  "parse_body node (JStr ''null'') = Inr JNull"
  "parse_body node (JStr ''{'') = Inl SyntaxError"
  "isl (call_toString (Number_toString node) (field JNull [''skill'', ''id'']))"
  "isl (call_toString (Number_toString node) (field (JObj []) [''skill'', ''id'']))"
  by (simp_all add: parse_body_def node_def parse_literal_def field.simps)

theorem FilesReader_validates_nothing_witness:
  "parse_body node event_of_names_only = Inr event_of_names_only \<and>
   field event_of_names_only [''source'', ''id''] = JUndefined \<and>
   field event_of_names_only [''source'', ''size''] = JUndefined \<and>
   field event_of_names_only [''token'', ''read'', ''access_token''] = JUndefined \<and>
   field event_of_names_only [''token'', ''write'', ''access_token''] = JUndefined \<and>
   FilesReader node event_of_names_only = Inr
     \<lparr> requestId = JStr ''request-1'',
       skillId = ''42'',
       fileId = JUndefined,
       fileName = JStr ''plan.DOCX'',
       fileSize = JUndefined,
       fileFormat = ''docx'',
       fileType = ''DOCUMENT'',
       fileDownloadURL =
         ''https://api.box.com/2.0/files/undefined/content?access_token=undefined'',
       fileReadToken = JUndefined,
       fileWriteToken = JUndefined,
       fileReadClient = BasicClient JUndefined \<rparr> \<and>
   parse_body node (JObj []) = Inr (JObj []) \<and>
   isl (call_toString (Number_toString node) (field (JObj []) [''skill'', ''id''])) \<and>
   FilesReader node (JObj []) = Inl TypeError \<and>
   parse_body node (JStr ''null'') = Inr JNull \<and>
   FilesReader node (JStr ''null'') = Inl TypeError \<and>
   parse_body node (JStr ''{'') = Inl SyntaxError \<and>
   FilesReader node (JStr ''{'') = Inl SyntaxError"
proof -
  have p: "parse_body node event_of_names_only = Inr event_of_names_only"
    "parse_body node (JObj []) = Inr (JObj [])"
    by (simp_all add: parse_body_def event_of_names_only_def)
  have u: "ToString (Number_toString node) JUndefined = Inr ''undefined''" by simp
  show ?thesis
    using FilesReader_validates_nothing
        [of node event_of_names_only _ _ _ event_of_names_only "''42''" "''plan.DOCX''"
            "''undefined''" "''undefined''"]
      FilesReader_validates_nothing [of node "JObj []" _ _ _ "JObj []"]
      FilesReader_validates_nothing [of node "JStr ''null''" _ _ _ JNull]
      FilesReader_validates_nothing [of node "JStr ''{''" _ _ SyntaxError]
      names_only_fields docx_format string_bodies p u
    by simp
qed

theorem FilesReader_without_file_id:
  "field event_without_file_id [''source'', ''id''] = JUndefined \<and>
   FilesReader node event_without_file_id = Inr
     \<lparr> requestId = JStr ''request-1'',
       skillId = ''42'',
       fileId = JUndefined,
       fileName = JStr ''plan.DOCX'',
       fileSize = JNum (Finite 2048),
       fileFormat = ''docx'',
       fileType = ''DOCUMENT'',
       fileDownloadURL =
         ''https://api.box.com/2.0/files/undefined/content?access_token=read-token'',
       fileReadToken = JStr ''read-token'',
       fileWriteToken = JStr ''write-token'',
       fileReadClient = BasicClient (JStr ''read-token'') \<rparr> \<and>
   FilesReader node (JObj [(''id'', JStr ''request-1'')]) = Inl TypeError"
  by code_simp

section \<open>Representation polling: the retries\<close>

lemma poll_rejected:
  "client url (requests t) = Inl e \<Longrightarrow>
     pollRepresentationInfo P client url t = Some (Inl e, t\<lparr>requests := Suc (requests t)\<rparr>)"
  by (subst pollRepresentationInfo.simps) simp

lemma poll_terminal:
  "client url (requests t) = Inr r \<Longrightarrow>
   status_state (response_body r) \<in> {''success'', ''viewable'', ''error''} \<Longrightarrow>
     pollRepresentationInfo P client url t
       = Some (Inr (response_body r), t\<lparr>requests := Suc (requests t)\<rparr>)"
  by (subst pollRepresentationInfo.simps) simp

lemma poll_unknown:
  "client url (requests t) = Inr r \<Longrightarrow>
   status_state (response_body r)
     \<notin> {''success'', ''viewable'', ''error'', ''none'', ''pending''} \<Longrightarrow>
     pollRepresentationInfo P client url t
       = Some (Inl FILE_PROCESSING_ERROR, t\<lparr>requests := Suc (requests t)\<rparr>)"
  by (subst pollRepresentationInfo.simps) simp

lemma poll_waiting_Builtin:
  "client url (requests t) = Inr r \<Longrightarrow>
   status_state (response_body r) \<in> {''none'', ''pending''} \<Longrightarrow>
     pollRepresentationInfo Builtin client url t
       = Some (Inl TypeError, t\<lparr>requests := Suc (requests t)\<rparr>)"
  by (subst pollRepresentationInfo.simps) (auto simp: Promise_delay_def)

text \<open>
  With Bluebird's \<open>Promise\<close> in scope the poller would do what its comment says: wait
  1000 ms after every \<open>none\<close> or \<open>pending\<close>, ask again without a bound on the
  retries, resolve with the first other response, and poll forever when no such response
  comes.
\<close>

lemma poll_waiting_Bluebird:
  "client url (requests t) = Inr r \<Longrightarrow>
   status_state (response_body r) \<in> {''none'', ''pending''} \<Longrightarrow>
     pollRepresentationInfo Bluebird client url t
       = pollRepresentationInfo Bluebird client url
           (t\<lparr>requests := Suc (requests t), waited_ms := waited_ms t + 1000\<rparr>)"
  by (subst pollRepresentationInfo.simps) (auto simp: Promise_delay_def)

lemma poll_Bluebird:
  assumes "\<forall>k<n. waiting (client url (requests t + k))"
    and "client url (requests t + n) = Inr r"
    and "status_state (response_body r) \<notin> {''none'', ''pending''}"
  shows "pollRepresentationInfo Bluebird client url t
           = Some (if status_state (response_body r) \<in> {''success'', ''viewable'', ''error''}
                   then Inr (response_body r) else Inl FILE_PROCESSING_ERROR,
                   \<lparr> requests = requests t + n + 1, waited_ms = waited_ms t + 1000 * n \<rparr>)"
  using assms
proof (induction n arbitrary: t)
  case 0
  then show ?case
    by (cases "status_state (response_body r) \<in> {''success'', ''viewable'', ''error''}")
       (simp_all add: poll_terminal poll_unknown)
next
  case (Suc n)
  let ?t = "t\<lparr>requests := Suc (requests t), waited_ms := waited_ms t + 1000\<rparr>"
  from Suc.prems(1) have "waiting (client url (requests t))"
    by (metis add.right_neutral zero_less_Suc)
  then obtain r0 where r0: "client url (requests t) = Inr r0"
    and w: "status_state (response_body r0) \<in> {''none'', ''pending''}"
    by (auto simp: waiting_def split: sum.splits)
  have "\<forall>k<n. waiting (client url (requests ?t + k))"
    using Suc.prems(1) by (metis Suc_less_eq add_Suc_shift select_convs(1) surjective update_convs(1,2))
  moreover have "client url (requests ?t + n) = Inr r"
    using Suc.prems(2) by simp
  ultimately have "pollRepresentationInfo Bluebird client url ?t
      = Some (if status_state (response_body r) \<in> {''success'', ''viewable'', ''error''}
              then Inr (response_body r) else Inl FILE_PROCESSING_ERROR,
              \<lparr> requests = requests ?t + n + 1, waited_ms = waited_ms ?t + 1000 * n \<rparr>)"
    using Suc.IH [of ?t] Suc.prems(3) by blast
  with poll_waiting_Bluebird [of client url t r0, OF r0 w] show ?case by simp
qed

lemma poll_returns_after_answer:
  assumes "pollRepresentationInfo P client url t = Some y"
  shows "P = Bluebird \<longrightarrow> (\<exists>i\<ge>requests t. \<not> waiting (client url i))"
proof (rule pollRepresentationInfo.raw_induct
        [where Pa = "\<lambda>x y. fst (fst (fst x)) = Bluebird \<longrightarrow>
                 (\<exists>i\<ge>requests (snd x). \<not> waiting (snd (fst (fst x)) (snd (fst x)) i))",
         simplified, OF _ assms], goal_cases)
  case (1 f P client url t y)
  show ?case
  proof (intro impI)
    assume B: "P = Bluebird"
    show "\<exists>i\<ge>requests t. \<not> waiting (client url i)"
    proof (cases "waiting (client url (requests t))")
      case False
      then show ?thesis by blast
    next
      case True
      then obtain r where r: "client url (requests t) = Inr r"
        and w: "status_state (response_body r) \<in> {''none'', ''pending''}"
        by (auto simp: waiting_def split: sum.splits)
      from w have "status_state (response_body r) \<notin> {''success'', ''viewable'', ''error''}"
        by auto
      with 1(2) r w B
      have "f Bluebird client url (t\<lparr>requests := Suc (requests t),
              waited_ms := waited_ms t + 1000\<rparr>) = Some y"
        by (simp add: Promise_delay_def)
      from 1(1) [OF this] obtain i where "Suc (requests t) \<le> i" and "\<not> waiting (client url i)"
        by auto
      then show ?thesis by (meson Suc_leD)
    qed
  qed
qed

lemma poll_forever:
  "\<forall>i. waiting (client url i) \<Longrightarrow> pollRepresentationInfo Bluebird client url t = None"
  using poll_returns_after_answer [of Bluebird client url t]
  by (cases "pollRepresentationInfo Bluebird client url t") auto

lemma assetURLTemplate_Bluebird:
  assumes "entries \<noteq> []" and "status_state (last entries) \<in> {''none'', ''pending''}"
    and "\<forall>k<n. waiting (client (info_url (last entries)) k)"
    and "client (info_url (last entries)) n = Inr r"
    and "status_state (response_body r) \<notin> {''none'', ''pending''}"
  shows "assetURLTemplate Bluebird client entries
           = Some (if status_state (response_body r) \<in> {''success'', ''viewable''}
                   then Inr (content_url_template (response_body r))
                   else Inl FILE_PROCESSING_ERROR,
                   \<lparr> requests = n + 1, waited_ms = 1000 * n \<rparr>)"
proof -
  have "pollRepresentationInfo Bluebird client (info_url (last entries)) no_trace
      = Some (if status_state (response_body r) \<in> {''success'', ''viewable'', ''error''}
              then Inr (response_body r) else Inl FILE_PROCESSING_ERROR,
              \<lparr> requests = requests no_trace + n + 1,
                waited_ms = waited_ms no_trace + 1000 * n \<rparr>)"
    using assms(3,4,5) by (intro poll_Bluebird) (simp_all add: no_trace_def)
  with assms(1,2) show ?thesis
    by (auto simp: assetURLTemplate_def no_trace_def)
qed

lemma three_answers_Bluebird:
  "pollRepresentationInfo Bluebird (answers three_answers) ''info'' no_trace
     = Some (Inr \<lparr> status_state = ''success'', content_url_template = ''c/{+asset_path}'',
                    info_url = ''info'' \<rparr>,
             \<lparr> requests = 3, waited_ms = 2000 \<rparr>)"
proof -
  have "\<forall>k<2. waiting (answers three_answers ''info'' (requests no_trace + k))"
    by (auto simp: less_Suc_eq numeral_2_eq_2 waiting_def answers_def three_answers_def
        answer_def no_trace_def)
  moreover have "answers three_answers ''info'' (requests no_trace + 2)
      = Inr (answer ''success'' ''c/{+asset_path}'')"
    by (simp add: answers_def three_answers_def no_trace_def)
  ultimately show ?thesis
    using poll_Bluebird [of 2 "answers three_answers" "''info''" no_trace
        "answer ''success'' ''c/{+asset_path}''"]
    by (simp add: answer_def no_trace_def)
qed

text \<open>
  C1. In the file as it is, \<open>Promise\<close> is the built-in one. On the responses pending,
  pending, success the poller sends one request and is rejected with the TypeError of
  \<open>Promise.delay(1000)\<close>: it waits for nothing, asks once, and getBasicFormatFileURL
  is rejected with the same error instead of returning the URL of the third response.
\<close>

theorem pollRepresentationInfo_pending_rejects:
  "pollRepresentationInfo Promise_in_scope (answers three_answers) ''info'' no_trace
     = Some (Inl TypeError, \<lparr> requests = 1, waited_ms = 0 \<rparr>) \<and>
   getBasicFormatFileURL Promise_in_scope node pending_entry (answers three_answers) reader
     = Some (Inl TypeError, \<lparr> requests = 1, waited_ms = 0 \<rparr>)"
proof -
  have first: "answers three_answers ''info'' (requests no_trace)
      = Inr (answer ''pending'' ''a/{+asset_path}'')"
    by (simp add: answers_def three_answers_def no_trace_def)
  have poll: "pollRepresentationInfo Promise_in_scope (answers three_answers) ''info'' no_trace
      = Some (Inl TypeError, \<lparr> requests = 1, waited_ms = 0 \<rparr>)"
    unfolding Promise_in_scope_def
    using poll_waiting_Builtin [of "answers three_answers" "''info''" no_trace, OF first]
    by (simp add: answer_def no_trace_def)
  then show ?thesis
    by (simp add: getBasicFormatFileURL_def assetURLTemplate_def reader_def FileType_def
        pending_entry_def)
qed

text \<open>The same call with Bluebird in scope: two waits, three requests, and the URL of
  the third response.\<close>

lemma three_answers_url_Bluebird:
  "getBasicFormatFileURL Bluebird node pending_entry (answers three_answers) reader
     = Some (Inr ''c/?access_token=read-token'', \<lparr> requests = 3, waited_ms = 2000 \<rparr>)"
  using three_answers_Bluebird
  by (simp add: getBasicFormatFileURL_def assetURLTemplate_def reader_def FileType_def
      pending_entry_def node_def cut_at_brace_def)

end
